theory Spec2Isabelle
  imports Main
begin

section \<open>Spreadsheet rows as the callbacks receive them\<close>

text \<open>
  The two callbacks of \<^verbatim>\<open>leaflet-gsheets-asc.js\<close> are handed the table that Tabletop
  produced with \<^verbatim>\<open>simpleSheet: true\<close>: an array of row objects, each a flat mapping from
  column name to the text of the cell. A column that the sheet does not have reads as
  \<^verbatim>\<open>undefined\<close>. A value read from a row is therefore a string or \<^verbatim>\<open>undefined\<close>.
\<close>

datatype cell = Undefined | Str string

type_synonym row = "string \<rightharpoonup> string"

definition get_field :: "row \<Rightarrow> string \<Rightarrow> cell" where
  \<comment> \<open>\<^verbatim>\<open>data[row].name\<close>\<close>
  "get_field r name = (case r name of None \<Rightarrow> Undefined | Some s \<Rightarrow> Str s)"

fun ToString :: "cell \<Rightarrow> string" where
  \<comment> \<open>the conversion that \<^verbatim>\<open>+\<close> on strings and \<^verbatim>\<open>JSON.parse\<close> apply to their operand\<close>
  "ToString Undefined = ''undefined''"
| "ToString (Str s) = s"

fun loose_eq :: "cell \<Rightarrow> cell \<Rightarrow> bool" where
  \<comment> \<open>\<^verbatim>\<open>==\<close> on these operands: two strings compare as strings, \<^verbatim>\<open>undefined\<close>
      equals only itself; no operand is coerced\<close>
  "loose_eq (Str a) (Str b) = (a = b)"
| "loose_eq Undefined Undefined = True"
| "loose_eq (Str a) Undefined = False"
| "loose_eq Undefined (Str b) = False"

section \<open>JSON values and GeoJSON features\<close>

text \<open>
  A number is kept as the decimal that was read, \<open>m \<times> 10\<^sup>e\<close> as \<open>JNumber m e\<close>
  (JavaScript then rounds it to a double, which is exact for the integers of the examples).
\<close>

datatype json =
    JNull
  | JBool bool
  | JNumber int int
  | JString string
  | JArray "json list"
  | JObject "(string \<times> json) list"

datatype js_error =
    SyntaxError  \<comment> \<open>thrown by \<^verbatim>\<open>JSON.parse\<close>\<close>
  | TypeError    \<comment> \<open>thrown by the engine, as for a call of a method that is not there\<close>
  | Error        \<comment> \<open>thrown by Leaflet\<close>

record geometry =
  g_type :: cell
  coordinates :: json

record properties =
  Title :: cell
  p_type :: cell
  file_num :: cell
  myinfo :: cell

record feature =
  f_type :: string
  geometry :: geometry
  properties :: properties

record feature_collection =
  c_type :: string
  features :: "feature list"

text \<open>
  The loop \<^verbatim>\<open>for (var row in data)\<close> of \<^verbatim>\<open>addPolygons\<close> visits the indices of the
  array in ascending order; the array \<^verbatim>\<open>geojsonPolys.features\<close> is the accumulator, and
  \<^verbatim>\<open>push\<close> appends at its end. The parser \<^verbatim>\<open>JSON.parse\<close> is a parameter: it converts
  its argument to a string first, and \<open>None\<close> is the SyntaxError it throws, which nothing
  in the function catches.
\<close>

fun addPolygons_rows ::
  "(string \<Rightarrow> json option) \<Rightarrow> row list \<Rightarrow> feature list \<Rightarrow> js_error + feature list" where
  "addPolygons_rows parse [] fs = Inr fs"
| "addPolygons_rows parse (r # rs) fs =
     (if loose_eq (get_field r ''include'') (Str ''y'') then
        (case parse (ToString (get_field r ''geometry'')) of
           None \<Rightarrow> Inl SyntaxError
         | Some coords \<Rightarrow>
             addPolygons_rows parse rs
               (fs @ [\<lparr>f_type = ''Feature'',
                       geometry = \<lparr>g_type = get_field r ''geotype'', coordinates = coords\<rparr>,
                       properties = \<lparr>Title = get_field r ''Title'',
                                     p_type = get_field r ''Type'',
                                     file_num = get_field r ''file_num'',
                                     myinfo = get_field r ''myinfo''\<rparr>\<rparr>]))
      else addPolygons_rows parse rs fs)"

definition geojsonPolys :: "(string \<Rightarrow> json option) \<Rightarrow> row list \<Rightarrow> js_error + feature_collection" where
  "geojsonPolys parse data =
     (case addPolygons_rows parse data [] of
        Inl e \<Rightarrow> Inl e
      | Inr fs \<Rightarrow> Inr \<lparr>c_type = ''FeatureCollection'', features = fs\<rparr>)"


section \<open>Layers, the map and the two layer slots\<close>

text \<open>
  Leaflet objects are opaque to the script: the model records what each constructor was
  given. A layer lives in a store under the number Leaflet stamps it with; the map holds
  the handles of the layers attached to it. \<open>polygonLayer\<close> and \<open>pointGroupLayer\<close> are
  the two global variables of the script, \<open>None\<close> while they are still \<^verbatim>\<open>undefined\<close>.

  The script catches no exception, and two of the library calls it makes can throw:
  \<^verbatim>\<open>L.geoJSON\<close>, when it cannot turn a Feature of the collection into a layer, and
  \<^verbatim>\<open>L.marker\<close>, when \<^verbatim>\<open>isNaN\<close> holds of the latitude or the longitude it is given. The
  callbacks take as parameters what is outside the script: the verdict of \<^verbatim>\<open>L.geoJSON\<close>
  on a collection (\<open>Some e\<close> when it throws \<open>e\<close>) and the built-in \<^verbatim>\<open>isNaN\<close>.
\<close>

datatype style_value = SString string | SNumber int

type_synonym style = "(string \<times> style_value) list"

type_synonym path_options = "string \<rightharpoonup> style_value"

definition polygonStyle :: style where
  "polygonStyle =
     [(''color'', SString ''#2ca25f''), (''fillColor'', SString ''#99d8c9''), (''weight'', SNumber 2)]"

definition polygonHoverStyle :: style where
  "polygonHoverStyle =
     [(''color'', SString ''green''), (''fillColor'', SString ''#2ca25f''), (''weight'', SNumber 4)]"

record awesome_icon =
  icon :: cell
  iconColor :: string
  markerColor :: cell
  prefix :: string
  extraClasses :: string

record marker =
  latlng :: "cell \<times> cell"
  popup :: "string option"
  marker_icon :: "awesome_icon option"

type_synonym handle = nat

datatype layer =
    TileLayer
  | BoundaryOverlay
  | GeoJSON feature_collection style
  | LayerGroup "marker list"

record page =
  objects :: "handle \<rightharpoonup> layer"
  lastId :: nat
  on_map :: "handle list"
  polygonLayer :: "handle option"
  pointGroupLayer :: "handle option"

definition new_layer :: "layer \<Rightarrow> page \<Rightarrow> handle \<times> page" where
  "new_layer l st = (lastId st, st\<lparr>objects := (objects st)(lastId st \<mapsto> l), lastId := Suc (lastId st)\<rparr>)"

definition addTo_map :: "handle \<Rightarrow> page \<Rightarrow> page" where
  "addTo_map h st = st\<lparr>on_map := (if h \<in> set (on_map st) then on_map st else on_map st @ [h])\<rparr>"

definition remove :: "handle \<Rightarrow> page \<Rightarrow> page" where
  \<comment> \<open>\<^verbatim>\<open>layer.remove()\<close>: takes the layer off the map; nothing happens when it is not on it\<close>
  "remove h st = st\<lparr>on_map := removeAll h (on_map st)\<rparr>"

definition init_page :: page where
  \<comment> \<open>the script's top level: only the basemap is on the map, both slots are undefined\<close>
  "init_page = \<lparr>objects = [0 \<mapsto> TileLayer], lastId = 1, on_map = [0],
                 polygonLayer = None, pointGroupLayer = None\<rparr>"

definition addBoundary :: "page \<Rightarrow> page" where
  \<comment> \<open>the \<^verbatim>\<open>$.getJSON\<close> callback of the parish boundary: a layer of its own, kept in no slot\<close>
  "addBoundary st = (let (h, st1) = new_layer BoundaryOverlay st in addTo_map h st1)"

definition addPolygons ::
  "(feature_collection \<Rightarrow> js_error option) \<Rightarrow> (string \<Rightarrow> json option) \<Rightarrow> row list \<Rightarrow> page
     \<Rightarrow> (js_error + unit) \<times> page" where
  \<comment> \<open>an exception leaves the function where it is thrown: what was done before stays done,
      and the assignment to \<open>polygonLayer\<close>, the last step, does not happen\<close>
  "addPolygons geo parse data st =
     (let st1 = (case polygonLayer st of None \<Rightarrow> st | Some old \<Rightarrow> remove old st) in
      case geojsonPolys parse data of
        Inl e \<Rightarrow> (Inl e, st1)
      | Inr gj \<Rightarrow>
          (case geo gj of
             Some e \<Rightarrow> (Inl e, st1)
           | None \<Rightarrow>
               (let (h, st2) = new_layer (GeoJSON gj polygonStyle) st1;
                    st3 = addTo_map h st2
                in (Inr (), st3\<lparr>polygonLayer := Some h\<rparr>))))"

definition L_marker :: "(cell \<Rightarrow> bool) \<Rightarrow> cell \<times> cell \<Rightarrow> js_error + marker" where
  \<comment> \<open>\<^verbatim>\<open>L.marker([lat, lng])\<close>: Leaflet makes a LatLng of the pair first and throws
      when \<^verbatim>\<open>isNaN\<close> holds of either part\<close>
  "L_marker nan pos =
     (if nan (fst pos) \<or> nan (snd pos) then Inl Error
      else Inr \<lparr>latlng = pos, popup = None, marker_icon = None\<rparr>)"

definition bindPopup :: "string \<Rightarrow> marker \<Rightarrow> marker" where
  "bindPopup html m = m\<lparr>popup := Some html\<rparr>"

definition setIcon :: "awesome_icon \<Rightarrow> marker \<Rightarrow> marker" where
  "setIcon i m = m\<lparr>marker_icon := Some i\<rparr>"

fun group_markers :: "layer option \<Rightarrow> marker list" where
  "group_markers (Some (LayerGroup ms)) = ms"
| "group_markers _ = []"

definition marker_addTo :: "marker \<Rightarrow> handle \<Rightarrow> page \<Rightarrow> page" where
  "marker_addTo m g st =
     st\<lparr>objects := (objects st)(g \<mapsto> LayerGroup (group_markers (objects st g) @ [m]))\<rparr>"

definition marker_setup :: "row \<Rightarrow> marker \<Rightarrow> marker" where
  \<comment> \<open>what the body of the loop of \<^verbatim>\<open>addPoints\<close> does with the marker that
      \<^verbatim>\<open>L.marker\<close> returned. The group holds the marker object itself, so the popup and
      the icon set after \<^verbatim>\<open>addTo\<close> are those of the marker in the group.\<close>
  "marker_setup r marker =
     (let marker = bindPopup (''<h2>'' @ ToString (get_field r ''Type'') @ ''</h2><br>''
                              @ ToString (get_field r ''Title'') @ ''<br>''
                              @ ToString (get_field r ''Comments'')) marker;
          icon = \<lparr>icon = get_field r ''Marker_Icon'',
                  iconColor = ''white'',
                  markerColor = get_field r ''Color'',
                  prefix = ''fa'',
                  extraClasses = ''flip-horizontal''\<rparr>
      in setIcon icon marker)"

definition row_marker :: "row \<Rightarrow> marker" where
  \<comment> \<open>the marker of a row whose position \<^verbatim>\<open>L.marker\<close> takes\<close>
  "row_marker r =
     marker_setup r \<lparr>latlng = (get_field r ''lat'', get_field r ''long''), popup = None,
                      marker_icon = None\<rparr>"

function addPoints_loop ::
  "(cell \<Rightarrow> bool) \<Rightarrow> row list \<Rightarrow> nat \<Rightarrow> handle \<Rightarrow> page \<Rightarrow> (js_error + unit) \<times> page" where
  "addPoints_loop nan data row g st =
     (if row < length data
      then (case L_marker nan (get_field (data ! row) ''lat'', get_field (data ! row) ''long'') of
              Inl e \<Rightarrow> (Inl e, st)
            | Inr marker \<Rightarrow>
                addPoints_loop nan data (Suc row) g
                  (marker_addTo (marker_setup (data ! row) marker) g st))
      else (Inr (), st))"
  by pat_completeness auto
termination
  by (relation "measure (\<lambda>(nan, data, row, g, st). length data - row)") auto

declare addPoints_loop.simps [simp del]

definition addPoints :: "(cell \<Rightarrow> bool) \<Rightarrow> row list \<Rightarrow> page \<Rightarrow> (js_error + unit) \<times> page" where
  "addPoints nan data st =
     (let st1 = (case pointGroupLayer st of None \<Rightarrow> st | Some old \<Rightarrow> remove old st);
          (g, st2) = new_layer (LayerGroup []) st1;
          st3 = (addTo_map g st2)\<lparr>pointGroupLayer := Some g\<rparr>
      in addPoints_loop nan data 0 g st3)"

section \<open>Hover and click handlers, the side panel\<close>

definition setStyle :: "style \<Rightarrow> path_options \<Rightarrow> path_options" where
  \<comment> \<open>\<^verbatim>\<open>path.setStyle(style)\<close>: every key of the style overwrites that option of the path\<close>
  "setStyle s opts = opts ++ map_of s"

text \<open>
  \<^verbatim>\<open>onEachFeature\<close> binds the three handlers to the layer of every Feature, whatever
  its geometry. \<^verbatim>\<open>e.target\<close> is that layer: a path with its options for a line or a
  polygon, a marker for a point, a group of markers for several points. A marker has no
  \<^verbatim>\<open>setStyle\<close>, so the call throws; the \<^verbatim>\<open>setStyle\<close> of a group passes the style on to
  those of its members that have the method, and a marker has not.
\<close>

datatype target = Path path_options | Marker | MarkerGroup nat

fun target_setStyle :: "style \<Rightarrow> target \<Rightarrow> js_error + target" where
  \<comment> \<open>\<^verbatim>\<open>e.target.setStyle(style)\<close>\<close>
  "target_setStyle s (Path opts) = Inr (Path (setStyle s opts))"
| "target_setStyle s Marker = Inl TypeError"
| "target_setStyle s (MarkerGroup n) = Inr (MarkerGroup n)"

definition mouseout :: "target \<Rightarrow> js_error + target" where
  "mouseout target = target_setStyle polygonStyle target"

definition mouseover :: "target \<Rightarrow> js_error + target" where
  "mouseover target = target_setStyle polygonHoverStyle target"

datatype hover = MouseOver | MouseOut

fun hover_handler :: "hover \<Rightarrow> target \<Rightarrow> js_error + target" where
  "hover_handler MouseOver = mouseover"
| "hover_handler MouseOut = mouseout"

definition hover_events :: "hover list \<Rightarrow> target \<Rightarrow> target" where
  \<comment> \<open>the layer after a sequence of hover events: each event runs its handler, and a
      handler that throws has changed nothing\<close>
  "hover_events es target =
     foldl (\<lambda>t e. case hover_handler e t of Inl err \<Rightarrow> t | Inr t' \<Rightarrow> t') target es"

record sidebar =
  sidebar_title :: string
  sidebar_content :: string
  open_panel :: "string option"

definition panelID :: string where
  "panelID = ''my-info-panel''"

definition init_sidebar :: sidebar where
  "init_sidebar = \<lparr>sidebar_title = '' No item selected'', sidebar_content = [], open_panel = None\<rparr>"

fun jq_text :: "cell \<Rightarrow> string \<Rightarrow> string" where
  \<comment> \<open>jQuery's \<^verbatim>\<open>.text(value)\<close> on the element's text: a string replaces it,
      \<^verbatim>\<open>undefined\<close> makes the call a getter and leaves it\<close>
  "jq_text (Str s) old = s"
| "jq_text Undefined old = old"

record click_event =
  target_feature :: feature
  stopped :: bool

definition polygon_click :: "click_event \<Rightarrow> sidebar \<Rightarrow> click_event \<times> sidebar" where
  \<comment> \<open>the \<^verbatim>\<open>click\<close> handler that \<^verbatim>\<open>onEachFeature\<close> binds to a polygon\<close>
  "polygon_click e ui =
     (let e1 = e\<lparr>stopped := True\<rparr>;
          ui1 = ui\<lparr>sidebar_title := jq_text (p_type (properties (target_feature e1))) (sidebar_title ui)\<rparr>;
          ui2 = ui1\<lparr>sidebar_content := jq_text (myinfo (properties (target_feature e1))) (sidebar_content ui1)\<rparr>
      in (e1, ui2\<lparr>open_panel := Some panelID\<rparr>))"

definition map_click :: "sidebar \<Rightarrow> sidebar" where
  \<comment> \<open>\<^verbatim>\<open>map.on('click', ...)\<close>: \<^verbatim>\<open>sidebar.close(panelID)\<close>; the two \<^verbatim>\<open>.text\<close>
      calls after it are commented out in the source\<close>
  "map_click ui = ui\<lparr>open_panel := None\<rparr>"

definition click_on_feature :: "feature \<Rightarrow> sidebar \<Rightarrow> sidebar" where
  \<comment> \<open>a click on a polygon: its own handler first, then the map's unless propagation was stopped\<close>
  "click_on_feature f ui =
     (let (e, ui1) = polygon_click \<lparr>target_feature = f, stopped = False\<rparr> ui
      in if stopped e then ui1 else map_click ui1)"

definition click_on_map :: "sidebar \<Rightarrow> sidebar" where
  "click_on_map ui = map_click ui"


section \<open>A reader for JSON text\<close>

text \<open>
  The theorems about \<^verbatim>\<open>addPolygons\<close> hold for every parser. For the concrete examples
  \<open>JSON_parse\<close> reads the JSON grammar over 8-bit text: white space, \<^verbatim>\<open>null\<close>,
  \<^verbatim>\<open>true\<close>, \<^verbatim>\<open>false\<close>, numbers, strings with their escapes, arrays and objects,
  and nothing after the value but white space. It is the built-in parser on the texts of
  the examples and not everywhere: a \<^verbatim>\<open>\u\<close> escape above \<^verbatim>\<open>\u00ff\<close> has no \<open>char\<close>
  and is refused, a number is not rounded to a double, and an object keeps every member
  it was written with, a repeated key too. The fuel bounds the length of a chain of nested
  calls: one call for each bracket that opens and each comma passed.
\<close>

definition is_ws :: "char \<Rightarrow> bool" where
  "is_ws c = (c = CHR '' '' \<or> c = CHR 0x09 \<or> c = CHR 0x0A \<or> c = CHR 0x0D)"

definition skip_ws :: "string \<Rightarrow> string" where
  "skip_ws cs = dropWhile is_ws cs"

definition is_digit :: "char \<Rightarrow> bool" where
  "is_digit c = (48 \<le> (of_char c :: nat) \<and> (of_char c :: nat) \<le> 57)"

definition digits_value :: "string \<Rightarrow> int" where
  "digits_value ds = foldl (\<lambda>a c. 10 * a + (int (of_char c) - 48)) 0 ds"

function norm10 :: "int \<Rightarrow> int \<Rightarrow> int \<times> int" where
  \<comment> \<open>one representation for each decimal: no trailing zero in the mantissa\<close>
  "norm10 m e = (if m = 0 then (0, 0) else if m mod 10 = 0 then norm10 (m div 10) (e + 1) else (m, e))"
  by pat_completeness auto
termination
  by (relation "measure (\<lambda>(m, e). nat \<bar>m\<bar>)") auto

declare norm10.simps [simp del]

definition parse_exponent :: "string \<Rightarrow> (int \<times> string) option" where
  \<comment> \<open>what follows the mantissa: nothing, or \<^verbatim>\<open>e\<close>, a sign and at least one digit\<close>
  "parse_exponent cs =
     (case cs of
        [] \<Rightarrow> Some (0, cs)
      | c # r \<Rightarrow>
          if c = CHR ''e'' \<or> c = CHR ''E'' then
            (let (neg, r1) = (case r of
                                [] \<Rightarrow> (False, r)
                              | s # r' \<Rightarrow> if s = CHR ''-'' then (True, r')
                                         else if s = CHR ''+'' then (False, r') else (False, r));
                 ds = takeWhile is_digit r1
             in if ds = [] then None
                else Some (if neg then - digits_value ds else digits_value ds, dropWhile is_digit r1))
          else Some (0, cs))"

definition parse_number :: "string \<Rightarrow> (json \<times> string) option" where
  "parse_number cs =
     (let (neg, cs1) = (case cs of [] \<Rightarrow> (False, cs)
                        | c # r \<Rightarrow> if c = CHR ''-'' then (True, r) else (False, cs));
          ip = takeWhile is_digit cs1;
          cs2 = dropWhile is_digit cs1
      in if ip = [] \<or> (1 < length ip \<and> hd ip = CHR ''0'') then None
         else
           (let frac = (case cs2 of [] \<Rightarrow> Some ([], cs2)
                        | c # r \<Rightarrow> if c = CHR ''.''
                                   then (if takeWhile is_digit r = [] then None
                                         else Some (takeWhile is_digit r, dropWhile is_digit r))
                                   else Some ([], cs2))
            in case frac of
                 None \<Rightarrow> None
               | Some (fp, cs3) \<Rightarrow>
                   (case parse_exponent cs3 of
                      None \<Rightarrow> None
                    | Some (ex, cs4) \<Rightarrow>
                        (let m = digits_value (ip @ fp);
                             (m', e') = norm10 (if neg then - m else m) (ex - int (length fp))
                         in Some (JNumber m' e', cs4)))))"

definition hex_value :: "char \<Rightarrow> nat option" where
  "hex_value c =
     (let n = (of_char c :: nat) in
      if 48 \<le> n \<and> n \<le> 57 then Some (n - 48)
      else if 65 \<le> n \<and> n \<le> 70 then Some (n - 55)
      else if 97 \<le> n \<and> n \<le> 102 then Some (n - 87)
      else None)"

definition escape_char :: "char \<Rightarrow> char option" where
  "escape_char c =
     (if c = CHR 0x22 then Some (CHR 0x22)
      else if c = CHR 0x5C then Some (CHR 0x5C)
      else if c = CHR ''/'' then Some (CHR ''/'')
      else if c = CHR ''b'' then Some (CHR 0x08)
      else if c = CHR ''f'' then Some (CHR 0x0C)
      else if c = CHR ''n'' then Some (CHR 0x0A)
      else if c = CHR ''r'' then Some (CHR 0x0D)
      else if c = CHR ''t'' then Some (CHR 0x09)
      else None)"

fun parse_chars :: "nat \<Rightarrow> string \<Rightarrow> string \<Rightarrow> (string \<times> string) option" where
  \<comment> \<open>the characters of a string after its opening quote, up to the closing one\<close>
  "parse_chars 0 cs acc = None"
| "parse_chars (Suc n) [] acc = None"
| "parse_chars (Suc n) (c # cs) acc =
     (if c = CHR 0x22 then Some (acc, cs)
      else if c = CHR 0x5C then
        (case cs of
           [] \<Rightarrow> None
         | e # cs' \<Rightarrow>
             if e = CHR ''u'' then
               (case map hex_value (take 4 cs') of
                  [Some a, Some b, Some c', Some d] \<Rightarrow>
                    if a = 0 \<and> b = 0 then parse_chars n (drop 4 cs') (acc @ [char_of (c' * 16 + d)])
                    else None
                | _ \<Rightarrow> None)
             else (case escape_char e of
                     None \<Rightarrow> None
                   | Some x \<Rightarrow> parse_chars n cs' (acc @ [x])))
      else if (of_char c :: nat) < 32 then None
      else parse_chars n cs (acc @ [c]))"

fun parse_value :: "nat \<Rightarrow> string \<Rightarrow> (json \<times> string) option"
  and parse_elements :: "nat \<Rightarrow> string \<Rightarrow> json list \<Rightarrow> (json list \<times> string) option"
  and parse_members :: "nat \<Rightarrow> string \<Rightarrow> (string \<times> json) list \<Rightarrow> ((string \<times> json) list \<times> string) option"
where
  "parse_value 0 cs = None"
| "parse_value (Suc n) cs =
     (case skip_ws cs of
        [] \<Rightarrow> None
      | c # rest \<Rightarrow>
          if c = CHR ''['' then
            (case skip_ws rest of
               [] \<Rightarrow> None
             | d # rest' \<Rightarrow>
                 if d = CHR '']'' then Some (JArray [], rest')
                 else map_option (\<lambda>(vs, r). (JArray vs, r)) (parse_elements n rest []))
          else if c = CHR ''{'' then
            (case skip_ws rest of
               [] \<Rightarrow> None
             | d # rest' \<Rightarrow>
                 if d = CHR ''}'' then Some (JObject [], rest')
                 else map_option (\<lambda>(kvs, r). (JObject kvs, r)) (parse_members n rest []))
          else if c = CHR 0x22 then
            map_option (\<lambda>(s, r). (JString s, r)) (parse_chars (length rest) rest [])
          else if take 4 (c # rest) = ''true'' then Some (JBool True, drop 4 (c # rest))
          else if take 5 (c # rest) = ''false'' then Some (JBool False, drop 5 (c # rest))
          else if take 4 (c # rest) = ''null'' then Some (JNull, drop 4 (c # rest))
          else parse_number (c # rest))"
| "parse_elements 0 cs acc = None"
| "parse_elements (Suc n) cs acc =
     (case parse_value n cs of
        None \<Rightarrow> None
      | Some (v, r) \<Rightarrow>
          (case skip_ws r of
             [] \<Rightarrow> None
           | c # r' \<Rightarrow>
               if c = CHR '','' then parse_elements n r' (acc @ [v])
               else if c = CHR '']'' then Some (acc @ [v], r')
               else None))"
| "parse_members 0 cs acc = None"
| "parse_members (Suc n) cs acc =
     (case skip_ws cs of
        [] \<Rightarrow> None
      | q # r0 \<Rightarrow>
          if q \<noteq> CHR 0x22 then None
          else
            (case parse_chars (length r0) r0 [] of
               None \<Rightarrow> None
             | Some (k, r1) \<Rightarrow>
                 (case skip_ws r1 of
                    [] \<Rightarrow> None
                  | colon # r2 \<Rightarrow>
                      if colon \<noteq> CHR '':'' then None
                      else
                        (case parse_value n r2 of
                           None \<Rightarrow> None
                         | Some (v, r3) \<Rightarrow>
                             (case skip_ws r3 of
                                [] \<Rightarrow> None
                              | c # r4 \<Rightarrow>
                                  if c = CHR '','' then parse_members n r4 (acc @ [(k, v)])
                                  else if c = CHR ''}'' then Some (acc @ [(k, v)], r4)
                                  else None)))))"

definition JSON_parse :: "string \<Rightarrow> json option" where
  "JSON_parse s =
     (case parse_value (2 * length s + 2) s of
        None \<Rightarrow> None
      | Some (v, r) \<Rightarrow> if skip_ws r = [] then Some v else None)"


section \<open>Leaflet and isNaN on the data of the examples\<close>

text \<open>
  For the concrete examples: the built-in \<^verbatim>\<open>isNaN\<close> on a cell, and how \<^verbatim>\<open>L.geoJSON\<close>
  turns a Feature into a layer. \<^verbatim>\<open>isNaN\<close> converts its argument to a number:
  \<^verbatim>\<open>undefined\<close> gives NaN, and a string gives NaN unless, white space at both ends apart,
  it is empty or a numeric literal. \<^verbatim>\<open>L.geoJSON\<close> chooses the layer by the geometry's
  \<^verbatim>\<open>type\<close> and throws at a type it does not know; the coordinates are covered where they
  are arrays of JSON numbers nested as the type asks, and refused elsewhere.
\<close>

definition is_StrWhiteSpaceChar :: "char \<Rightarrow> bool" where
  "is_StrWhiteSpaceChar c =
     (let n = (of_char c :: nat) in (9 \<le> n \<and> n \<le> 13) \<or> n = 32 \<or> n = 160)"

definition trim :: "string \<Rightarrow> string" where
  "trim s = rev (dropWhile is_StrWhiteSpaceChar (rev (dropWhile is_StrWhiteSpaceChar s)))"

definition is_ExponentPart :: "string \<Rightarrow> bool" where
  "is_ExponentPart s =
     (case s of
        [] \<Rightarrow> False
      | c # r \<Rightarrow>
          (c = CHR ''e'' \<or> c = CHR ''E'') \<and>
          (let ds = (case r of [] \<Rightarrow> r
                     | sg # r' \<Rightarrow> if sg = CHR ''+'' \<or> sg = CHR ''-'' then r' else r)
           in ds \<noteq> [] \<and> list_all is_digit ds))"

definition is_StrUnsignedDecimalLiteral :: "string \<Rightarrow> bool" where
  "is_StrUnsignedDecimalLiteral s =
     (s = ''Infinity'' \<or>
      (let ip = takeWhile is_digit s; r = dropWhile is_digit s in
       case r of
         [] \<Rightarrow> ip \<noteq> []
       | c # r' \<Rightarrow>
           if c = CHR ''.''
           then (ip \<noteq> [] \<or> takeWhile is_digit r' \<noteq> []) \<and>
                (dropWhile is_digit r' = [] \<or> is_ExponentPart (dropWhile is_digit r'))
           else ip \<noteq> [] \<and> is_ExponentPart r))"

definition is_NonDecimalIntegerLiteral :: "string \<Rightarrow> bool" where
  "is_NonDecimalIntegerLiteral s =
     (case s of
        z # x # ds \<Rightarrow>
          z = CHR ''0'' \<and> ds \<noteq> [] \<and>
          (if x = CHR ''x'' \<or> x = CHR ''X'' then list_all (\<lambda>c. hex_value c \<noteq> None) ds
           else if x = CHR ''o'' \<or> x = CHR ''O''
             then list_all (\<lambda>c. 48 \<le> (of_char c :: nat) \<and> (of_char c :: nat) \<le> 55) ds
           else if x = CHR ''b'' \<or> x = CHR ''B''
             then list_all (\<lambda>c. c = CHR ''0'' \<or> c = CHR ''1'') ds
           else False)
      | _ \<Rightarrow> False)"

definition is_StringNumericLiteral :: "string \<Rightarrow> bool" where
  "is_StringNumericLiteral s =
     (let t = trim s in
      t = [] \<or> is_NonDecimalIntegerLiteral t \<or>
      (case t of
         [] \<Rightarrow> False
       | c # r \<Rightarrow> if c = CHR ''+'' \<or> c = CHR ''-'' then is_StrUnsignedDecimalLiteral r
                  else is_StrUnsignedDecimalLiteral t))"

fun isNaN :: "cell \<Rightarrow> bool" where
  "isNaN Undefined = True"
| "isNaN (Str s) = (\<not> is_StringNumericLiteral s)"

fun positions :: "nat \<Rightarrow> json \<Rightarrow> bool" where
  \<comment> \<open>a position is an array that starts with two numbers; \<open>positions n\<close> holds of
      arrays, nested \<open>n\<close> deep, of positions\<close>
  "positions 0 (JArray (JNumber a b # JNumber c d # others)) = True"
| "positions 0 other = False"
| "positions (Suc n) (JArray cs) = list_all (positions n) cs"
| "positions (Suc n) other = False"

fun array_length :: "json \<Rightarrow> nat" where
  "array_length (JArray cs) = length cs"
| "array_length other = 0"

definition geometryToLayer :: "style \<Rightarrow> feature \<Rightarrow> js_error + target" where
  "geometryToLayer s f =
     (let coords = coordinates (geometry f) in
      case g_type (geometry f) of
        Undefined \<Rightarrow> Inl Error
      | Str kind \<Rightarrow>
          if kind = ''Point'' then (if positions 0 coords then Inr Marker else Inl Error)
          else if kind = ''MultiPoint''
            then (if positions 1 coords then Inr (MarkerGroup (array_length coords)) else Inl Error)
          else if kind = ''LineString''
            then (if positions 1 coords then Inr (Path (setStyle s Map.empty)) else Inl Error)
          else if kind = ''MultiLineString'' \<or> kind = ''Polygon''
            then (if positions 2 coords then Inr (Path (setStyle s Map.empty)) else Inl Error)
          else if kind = ''MultiPolygon''
            then (if positions 3 coords then Inr (Path (setStyle s Map.empty)) else Inl Error)
          else if kind = ''GeometryCollection'' then Inl TypeError
          else Inl Error)"

fun first_error :: "(js_error + 'a) list \<Rightarrow> js_error option" where
  "first_error [] = None"
| "first_error (Inl e # rs) = Some e"
| "first_error (Inr x # rs) = first_error rs"

definition leaflet_geoJSON :: "feature_collection \<Rightarrow> js_error option" where
  \<comment> \<open>\<^verbatim>\<open>L.geoJSON\<close> makes the layers of the Features in their order and stops at the first
      it cannot make\<close>
  "leaflet_geoJSON gj = first_error (map (geometryToLayer polygonStyle) (features gj))"

section \<open>Observations and reachable pages\<close>

fun is_GeoJSON :: "layer option \<Rightarrow> bool" where
  "is_GeoJSON (Some (GeoJSON gj s)) = True"
| "is_GeoJSON _ = False"

fun is_LayerGroup :: "layer option \<Rightarrow> bool" where
  "is_LayerGroup (Some (LayerGroup ms)) = True"
| "is_LayerGroup _ = False"

definition polygon_layers_on_map :: "page \<Rightarrow> handle list" where
  \<comment> \<open>the layers on the map that \<^verbatim>\<open>addPolygons\<close> built\<close>
  "polygon_layers_on_map st = filter (\<lambda>h. is_GeoJSON (objects st h)) (on_map st)"

definition point_groups_on_map :: "page \<Rightarrow> handle list" where
  \<comment> \<open>the layer groups on the map that \<^verbatim>\<open>addPoints\<close> built\<close>
  "point_groups_on_map st = filter (\<lambda>h. is_LayerGroup (objects st h)) (on_map st)"

definition accepted :: "(cell \<Rightarrow> bool) \<Rightarrow> row \<Rightarrow> bool" where
  \<comment> \<open>the rows whose position \<^verbatim>\<open>L.marker\<close> takes\<close>
  "accepted nan r \<longleftrightarrow> \<not> nan (get_field r ''lat'') \<and> \<not> nan (get_field r ''long'')"

definition layers_inv :: "page \<Rightarrow> bool" where
  \<comment> \<open>what every callback keeps: a layer is on the map once, handles on the map and in the
      slots were stamped already, each slot holds a layer of its own kind, and a layer of
      either kind that is on the map is the one in its slot\<close>
  "layers_inv st \<longleftrightarrow>
     distinct (on_map st) \<and>
     (\<forall>h \<in> set (on_map st). h < lastId st) \<and>
     (\<forall>h \<in> set_option (polygonLayer st). h < lastId st \<and> is_GeoJSON (objects st h)) \<and>
     (\<forall>h \<in> set_option (pointGroupLayer st). h < lastId st \<and> is_LayerGroup (objects st h)) \<and>
     set (polygon_layers_on_map st) \<subseteq> set_option (polygonLayer st) \<and>
     set (point_groups_on_map st) \<subseteq> set_option (pointGroupLayer st)"

text \<open>
  The pages the script can be in: its top level has run, and after it the three callbacks
  ran in any order, any number of times, on any data, each to its end or to the exception
  that stopped it, be it the parser's or Leaflet's.
\<close>

inductive reachable :: "page \<Rightarrow> bool" where
  start: "reachable init_page"
| boundary: "reachable st \<Longrightarrow> reachable (addBoundary st)"
| polygons: "reachable st \<Longrightarrow> reachable (snd (addPolygons geo parse data st))"
| points: "reachable st \<Longrightarrow> reachable (snd (addPoints nan data st))"

section \<open>Rows and features of the examples\<close>

definition row_LineString :: row where
  "row_LineString =
     [''include'' \<mapsto> ''y'', ''geometry'' \<mapsto> ''[[1,2],[3,4]]'', ''geotype'' \<mapsto> ''LineString'',
      ''Title'' \<mapsto> ''Airline Hwy'', ''Type'' \<mapsto> ''Road widening'', ''file_num'' \<mapsto> ''H.0042'',
      ''myinfo'' \<mapsto> ''Phase 1'']"

definition row_Point :: row where
  "row_Point =
     [''include'' \<mapsto> ''y'', ''geometry'' \<mapsto> ''[5,6]'', ''geotype'' \<mapsto> ''Point'',
      ''Title'' \<mapsto> ''Roundabout'', ''Type'' \<mapsto> ''Intersection'', ''file_num'' \<mapsto> ''H.0077'',
      ''myinfo'' \<mapsto> ''Design'']"

definition row_upper :: row where
  "row_upper = row_LineString(''include'' \<mapsto> ''Y'')"

definition row_untrimmed :: row where
  "row_untrimmed = row_LineString(''include'' \<mapsto> ''y '')"

definition row_no_include :: row where
  "row_no_include = row_LineString(''include'' := None)"

definition row_malformed :: row where
  "row_malformed = row_Point(''geometry'' \<mapsto> ''[5,6'')"

definition feature_LineString :: feature where
  "feature_LineString =
     \<lparr>f_type = ''Feature'',
      geometry = \<lparr>g_type = Str ''LineString'',
                  coordinates = JArray [JArray [JNumber 1 0, JNumber 2 0],
                                        JArray [JNumber 3 0, JNumber 4 0]]\<rparr>,
      properties = \<lparr>Title = Str ''Airline Hwy'', p_type = Str ''Road widening'',
                    file_num = Str ''H.0042'', myinfo = Str ''Phase 1''\<rparr>\<rparr>"

definition feature_Point :: feature where
  "feature_Point =
     \<lparr>f_type = ''Feature'',
      geometry = \<lparr>g_type = Str ''Point'', coordinates = JArray [JNumber 5 0, JNumber 6 0]\<rparr>,
      properties = \<lparr>Title = Str ''Roundabout'', p_type = Str ''Intersection'',
                    file_num = Str ''H.0077'', myinfo = Str ''Design''\<rparr>\<rparr>"

definition row_lowercase_kind :: row where
  "row_lowercase_kind = row_LineString(''geotype'' \<mapsto> ''linestring'')"

definition feature_lowercase_kind :: feature where
  "feature_lowercase_kind =
     feature_LineString\<lparr>geometry := (geometry feature_LineString)\<lparr>g_type := Str ''linestring''\<rparr>\<rparr>"

definition row_flag :: row where
  "row_flag =
     [''lat'' \<mapsto> ''30.1'', ''long'' \<mapsto> ''-90.2'', ''Marker_Icon'' \<mapsto> ''flag'', ''Color'' \<mapsto> ''red'',
      ''Type'' \<mapsto> ''Bridge'', ''Title'' \<mapsto> ''Bayou crossing'', ''Comments'' \<mapsto> ''Open'']"

definition row_no_position :: row where
  "row_no_position =
     [''lat'' \<mapsto> ''north'', ''Marker_Icon'' \<mapsto> ''star'', ''Color'' \<mapsto> ''blue'',
      ''Type'' \<mapsto> ''Park'', ''Title'' \<mapsto> ''Trailhead'', ''Comments'' \<mapsto> ''Planned'']"


section \<open>The row loop of addPolygons\<close>


lemma included_iff:
  "loose_eq (get_field r ''include'') (Str ''y'') \<longleftrightarrow> r ''include'' = Some ''y''"
  by (cases "r ''include''") (simp_all add: get_field_def)

lemma rows_acc:
  "addPolygons_rows parse rs fs =
     (case addPolygons_rows parse rs [] of Inl e \<Rightarrow> Inl e | Inr gs \<Rightarrow> Inr (fs @ gs))"
proof (induction rs arbitrary: fs)
  case Nil
  show ?case by simp
next
  case (Cons r rs)
  note IH = Cons.IH
  show ?case
  proof (cases "loose_eq (get_field r ''include'') (Str ''y'')")
    case False
    then show ?thesis using IH [of fs] by simp
  next
    case True
    show ?thesis
    proof (cases "parse (ToString (get_field r ''geometry''))")
      case None
      with True show ?thesis by simp
    next
      case (Some c)
      let ?f = "\<lparr>f_type = ''Feature'',
                 geometry = \<lparr>g_type = get_field r ''geotype'', coordinates = c\<rparr>,
                 properties = \<lparr>Title = get_field r ''Title'', p_type = get_field r ''Type'',
                               file_num = get_field r ''file_num'',
                               myinfo = get_field r ''myinfo''\<rparr>\<rparr>"
      have "addPolygons_rows parse (r # rs) fs = addPolygons_rows parse rs (fs @ [?f])"
        using True Some by simp
      moreover have "addPolygons_rows parse (r # rs) [] = addPolygons_rows parse rs [?f]"
        using True Some by simp
      ultimately show ?thesis
        using IH [of "fs @ [?f]"] IH [of "[?f]"] by (simp split: sum.splits)
    qed
  qed
qed

lemma rows_append:
  "addPolygons_rows parse (xs @ ys) fs =
     (case addPolygons_rows parse xs fs of Inl e \<Rightarrow> Inl e | Inr gs \<Rightarrow> addPolygons_rows parse ys gs)"
  by (induction xs arbitrary: fs) (simp_all split: option.splits)

lemma rows_excluded:
  "r ''include'' \<noteq> Some ''y'' \<Longrightarrow> addPolygons_rows parse (r # rs) fs = addPolygons_rows parse rs fs"
  by (simp add: included_iff)

lemma rows_single:
  "r ''include'' = Some ''y'' \<Longrightarrow>
   addPolygons_rows parse [r] [] =
     (case parse (ToString (get_field r ''geometry'')) of
        None \<Rightarrow> Inl SyntaxError
      | Some c \<Rightarrow> Inr [\<lparr>f_type = ''Feature'',
                 geometry = \<lparr>g_type = get_field r ''geotype'', coordinates = c\<rparr>,
                 properties = \<lparr>Title = get_field r ''Title'', p_type = get_field r ''Type'',
                               file_num = get_field r ''file_num'',
                               myinfo = get_field r ''myinfo''\<rparr>\<rparr>])"
  by (simp add: included_iff split: option.splits)

lemma rows_split:
  assumes "addPolygons_rows parse (pre @ r # post) [] = Inr out"
  shows "\<exists>fa fr fb. addPolygons_rows parse pre [] = Inr fa \<and> addPolygons_rows parse [r] [] = Inr fr
           \<and> addPolygons_rows parse post [] = Inr fb \<and> out = fa @ fr @ fb"
proof -
  from assms obtain fa where fa: "addPolygons_rows parse pre [] = Inr fa"
    and rest: "addPolygons_rows parse (r # post) fa = Inr out"
    by (auto simp: rows_append split: sum.splits)
  from rest have "addPolygons_rows parse ([r] @ post) fa = Inr out" by simp
  then obtain g where g: "addPolygons_rows parse [r] fa = Inr g"
    and post: "addPolygons_rows parse post g = Inr out"
    unfolding rows_append by (auto split: sum.splits)
  from g obtain fr where fr: "addPolygons_rows parse [r] [] = Inr fr" and g_eq: "g = fa @ fr"
    using rows_acc [of parse "[r]" fa] by (auto split: sum.splits)
  from post obtain fb where fb: "addPolygons_rows parse post [] = Inr fb" and out: "out = g @ fb"
    using rows_acc [of parse post g] by (auto split: sum.splits)
  from fa fr fb g_eq out show ?thesis by simp
qed

lemma rows_filter:
  "addPolygons_rows parse data [] = Inr out \<Longrightarrow>
   list_all2 (\<lambda>r f. addPolygons_rows parse [r] [] = Inr [f])
     (filter (\<lambda>r. r ''include'' = Some ''y'') data) out"
proof (induction data arbitrary: out)
  case Nil
  then show ?case by simp
next
  case (Cons r rs)
  from Cons.prems have "addPolygons_rows parse ([] @ r # rs) [] = Inr out" by simp
  from rows_split [OF this] obtain fr fb where
    fr: "addPolygons_rows parse [r] [] = Inr fr" and fb: "addPolygons_rows parse rs [] = Inr fb"
    and out: "out = fr @ fb" by auto
  have tl: "list_all2 (\<lambda>r f. addPolygons_rows parse [r] [] = Inr [f])
     (filter (\<lambda>r. r ''include'' = Some ''y'') rs) fb" by (rule Cons.IH [OF fb])
  show ?case
  proof (cases "r ''include'' = Some ''y''")
    case True
    from fr rows_single [of r parse] True have "\<exists>f. fr = [f]"
      by (cases "parse (ToString (get_field r ''geometry''))") (auto simp del: addPolygons_rows.simps)
    then obtain f where "fr = [f]" ..
    with True fr tl out show ?thesis by simp
  next
    case False
    with fr have "fr = []" by (simp add: included_iff)
    with False tl out show ?thesis by simp
  qed
qed


lemma JSON_parse_LineString:
  "JSON_parse ''[[1,2],[3,4]]'' =
     Some (JArray [JArray [JNumber 1 0, JNumber 2 0], JArray [JNumber 3 0, JNumber 4 0]])"
  by code_simp

lemma JSON_parse_Point: "JSON_parse ''[5,6]'' = Some (JArray [JNumber 5 0, JNumber 6 0])"
  by code_simp

lemma JSON_parse_malformed: "JSON_parse ''[5,6'' = None"
  by code_simp

lemmas example_rows =
  row_LineString_def row_Point_def row_upper_def row_untrimmed_def row_no_include_def
  row_malformed_def feature_LineString_def feature_Point_def get_field_def
  JSON_parse_LineString JSON_parse_Point JSON_parse_malformed

lemma rows_example_one:
  "addPolygons_rows JSON_parse [row_upper, row_LineString, row_no_include] [] = Inr [feature_LineString]"
  by (simp add: example_rows)

lemma rows_example_two:
  "addPolygons_rows JSON_parse [row_Point, row_untrimmed, row_LineString] [] = Inr [feature_Point, feature_LineString]"
  by (simp add: example_rows)

section \<open>Which rows become features\<close>

text \<open>
  Claim C1. A row of the polygon table gives a Feature exactly when its \<^verbatim>\<open>include\<close>
  cell is the string \<^verbatim>\<open>y\<close>. A row with any other text there, or without the column,
  changes nothing: the loop's result is the result on the table without that row, and its
  geometry is never parsed. A row with \<^verbatim>\<open>y\<close> there, in a table that the loop gets
  through, contributes exactly one Feature, between the Features of the rows before it and
  those of the rows after it.
\<close>

theorem addPolygons_include_exact:
  "(r ''include'' \<noteq> Some ''y'' \<longrightarrow>
      addPolygons_rows parse (pre @ r # post) fs = addPolygons_rows parse (pre @ post) fs) \<and>
   (r ''include'' = Some ''y'' \<longrightarrow> addPolygons_rows parse (pre @ r # post) [] = Inr out \<longrightarrow>
      (\<exists>fa f fb. addPolygons_rows parse pre [] = Inr fa \<and> addPolygons_rows parse [r] [] = Inr [f]
          \<and> addPolygons_rows parse post [] = Inr fb \<and> out = fa @ f # fb))"
proof (intro conjI impI)
  assume "r ''include'' \<noteq> Some ''y''"
  then have "addPolygons_rows parse (r # post) gs = addPolygons_rows parse post gs" for gs
    by (rule rows_excluded)
  then show "addPolygons_rows parse (pre @ r # post) fs = addPolygons_rows parse (pre @ post) fs"
    by (simp add: rows_append split: sum.splits)
next
  assume inc: "r ''include'' = Some ''y''"
    and ok: "addPolygons_rows parse (pre @ r # post) [] = Inr out"
  from rows_split [OF ok] obtain fa fr fb where
    parts: "addPolygons_rows parse pre [] = Inr fa" "addPolygons_rows parse [r] [] = Inr fr"
      "addPolygons_rows parse post [] = Inr fb" "out = fa @ fr @ fb"
    by blast
  from parts(2) rows_single [of r parse] inc have "\<exists>f. fr = [f]"
    by (cases "parse (ToString (get_field r ''geometry''))") (auto simp del: addPolygons_rows.simps)
  then obtain f where "fr = [f]" ..
  with parts show "\<exists>fa f fb. addPolygons_rows parse pre [] = Inr fa \<and> addPolygons_rows parse [r] [] = Inr [f]
          \<and> addPolygons_rows parse post [] = Inr fb \<and> out = fa @ f # fb"
    by (intro exI [of _ fa] exI [of _ f] exI [of _ fb]) simp
qed

theorem addPolygons_include_exact_witness:
  "row_upper ''include'' \<noteq> Some ''y''
   \<and> addPolygons_rows JSON_parse ([row_Point] @ row_upper # [row_LineString]) []
       = addPolygons_rows JSON_parse ([row_Point] @ [row_LineString]) []
   \<and> row_LineString ''include'' = Some ''y''
   \<and> addPolygons_rows JSON_parse ([row_upper] @ row_LineString # [row_no_include]) [] = Inr [feature_LineString]
   \<and> (\<exists>fa f fb. addPolygons_rows JSON_parse [row_upper] [] = Inr fa
         \<and> addPolygons_rows JSON_parse [row_LineString] [] = Inr [f]
         \<and> addPolygons_rows JSON_parse [row_no_include] [] = Inr fb
         \<and> [feature_LineString] = fa @ f # fb)"
proof -
  have a: "row_upper ''include'' \<noteq> Some ''y''" by (simp add: example_rows)
  have b: "row_LineString ''include'' = Some ''y''" by (simp add: example_rows)
  have c: "addPolygons_rows JSON_parse ([row_upper] @ row_LineString # [row_no_include]) [] = Inr [feature_LineString]"
    using rows_example_one by simp
  from addPolygons_include_exact [of row_upper JSON_parse "[row_Point]" "[row_LineString]" "[]"] a
  have d: "addPolygons_rows JSON_parse ([row_Point] @ row_upper # [row_LineString]) []
       = addPolygons_rows JSON_parse ([row_Point] @ [row_LineString]) []" by blast
  from addPolygons_include_exact [of row_LineString JSON_parse "[row_upper]" "[row_no_include]" _ "[feature_LineString]"] b c
  have e: "\<exists>fa f fb. addPolygons_rows JSON_parse [row_upper] [] = Inr fa
         \<and> addPolygons_rows JSON_parse [row_LineString] [] = Inr [f]
         \<and> addPolygons_rows JSON_parse [row_no_include] [] = Inr fb
         \<and> [feature_LineString] = fa @ f # fb" by blast
  from a b c d e show ?thesis by blast
qed

text \<open>
  Claim C4. The \<^verbatim>\<open>features\<close> array of the collection lists, index by index, the
  Features of the rows that have \<^verbatim>\<open>include\<close> equal to \<^verbatim>\<open>y\<close>, in the order of those
  rows in the table: the Feature at each position is the one the loop emits for that row alone.
\<close>

theorem features_in_row_order:
  assumes "geojsonPolys parse data = Inr gj"
  shows "c_type gj = ''FeatureCollection'' \<and>
         list_all2 (\<lambda>r f. addPolygons_rows parse [r] [] = Inr [f])
           (filter (\<lambda>r. r ''include'' = Some ''y'') data) (features gj)"
proof -
  from assms obtain out where out: "addPolygons_rows parse data [] = Inr out"
    and gj: "gj = \<lparr>c_type = ''FeatureCollection'', features = out\<rparr>"
    by (auto simp: geojsonPolys_def split: sum.splits)
  from rows_filter [OF out] gj show ?thesis by simp
qed

theorem features_in_row_order_witness:
  "geojsonPolys JSON_parse [row_Point, row_untrimmed, row_LineString]
     = Inr \<lparr>c_type = ''FeatureCollection'', features = [feature_Point, feature_LineString]\<rparr>
   \<and> list_all2 (\<lambda>r f. addPolygons_rows JSON_parse [r] [] = Inr [f])
        [row_Point, row_LineString] [feature_Point, feature_LineString]"
proof -
  have a: "geojsonPolys JSON_parse [row_Point, row_untrimmed, row_LineString]
     = Inr \<lparr>c_type = ''FeatureCollection'', features = [feature_Point, feature_LineString]\<rparr>"
    unfolding geojsonPolys_def rows_example_two by simp
  have b: "filter (\<lambda>r. r ''include'' = Some ''y'') [row_Point, row_untrimmed, row_LineString]
             = [row_Point, row_LineString]"
    by (simp add: example_rows)
  from features_in_row_order [OF a] b a show ?thesis by simp
qed


text \<open>
  Claim C5. For a row with \<^verbatim>\<open>include\<close> equal to \<^verbatim>\<open>y\<close> in a table that the loop gets
  through, the Feature at the row's position has as \<^verbatim>\<open>geometry.type\<close> the row's
  \<^verbatim>\<open>geotype\<close> cell as it is, as \<^verbatim>\<open>geometry.coordinates\<close> the value that parsing the
  row's \<^verbatim>\<open>geometry\<close> cell gave, whatever its shape, and as properties the cells
  \<^verbatim>\<open>Title\<close>, \<^verbatim>\<open>Type\<close>, \<^verbatim>\<open>file_num\<close> and \<^verbatim>\<open>myinfo\<close> as they are. A row with
  geometry \<^verbatim>\<open>[[1,2],[3,4]]\<close> and geotype \<^verbatim>\<open>LineString\<close> gives the geometry
  \<^verbatim>\<open>{type: "LineString", coordinates: [[1,2],[3,4]]}\<close>.
\<close>

theorem feature_fields_verbatim:
  "(r ''include'' = Some ''y'' \<longrightarrow> addPolygons_rows parse (pre @ r # post) [] = Inr out \<longrightarrow>
      (\<exists>c. parse (ToString (get_field r ''geometry'')) = Some c
         \<and> length (filter (\<lambda>r. r ''include'' = Some ''y'') pre) < length out
         \<and> out ! length (filter (\<lambda>r. r ''include'' = Some ''y'') pre) =
             \<lparr>f_type = ''Feature'',
              geometry = \<lparr>g_type = get_field r ''geotype'', coordinates = c\<rparr>,
              properties = \<lparr>Title = get_field r ''Title'', p_type = get_field r ''Type'',
                            file_num = get_field r ''file_num'', myinfo = get_field r ''myinfo''\<rparr>\<rparr>))
   \<and> (r ''include'' = Some ''y'' \<longrightarrow> r ''geometry'' = Some ''[[1,2],[3,4]]'' \<longrightarrow>
        r ''geotype'' = Some ''LineString'' \<longrightarrow>
      (\<exists>f. addPolygons_rows JSON_parse [r] [] = Inr [f]
         \<and> geometry f = \<lparr>g_type = Str ''LineString'',
                          coordinates = JArray [JArray [JNumber 1 0, JNumber 2 0],
                                                JArray [JNumber 3 0, JNumber 4 0]]\<rparr>))"
proof (intro conjI impI)
  assume inc: "r ''include'' = Some ''y''"
    and ok: "addPolygons_rows parse (pre @ r # post) [] = Inr out"
  let ?n = "length (filter (\<lambda>r. r ''include'' = Some ''y'') pre)"
  from rows_split [OF ok] obtain fa fr fb where
    fa: "addPolygons_rows parse pre [] = Inr fa" and fr: "addPolygons_rows parse [r] [] = Inr fr"
    and out: "out = fa @ fr @ fb"
    by blast
  have n: "length fa = ?n"
    using rows_filter [OF fa] by (simp add: list_all2_lengthD)
  from fr rows_single [of r parse] inc obtain c where
    c: "parse (ToString (get_field r ''geometry'')) = Some c"
    and fr_eq: "fr = [\<lparr>f_type = ''Feature'',
              geometry = \<lparr>g_type = get_field r ''geotype'', coordinates = c\<rparr>,
              properties = \<lparr>Title = get_field r ''Title'', p_type = get_field r ''Type'',
                            file_num = get_field r ''file_num'', myinfo = get_field r ''myinfo''\<rparr>\<rparr>]"
    by (cases "parse (ToString (get_field r ''geometry''))") (auto simp del: addPolygons_rows.simps)
  from out fr_eq n have "?n < length out" by simp
  moreover from out fr_eq n have "out ! ?n = hd fr"
    by (metis append_Cons list.sel(1) nth_append_length)
  ultimately show "\<exists>c. parse (ToString (get_field r ''geometry'')) = Some c
         \<and> ?n < length out
         \<and> out ! ?n =
             \<lparr>f_type = ''Feature'',
              geometry = \<lparr>g_type = get_field r ''geotype'', coordinates = c\<rparr>,
              properties = \<lparr>Title = get_field r ''Title'', p_type = get_field r ''Type'',
                            file_num = get_field r ''file_num'', myinfo = get_field r ''myinfo''\<rparr>\<rparr>"
    using c fr_eq by (intro exI [of _ c]) simp
next
  assume "r ''include'' = Some ''y''" "r ''geometry'' = Some ''[[1,2],[3,4]]''"
    "r ''geotype'' = Some ''LineString''"
  then show "\<exists>f. addPolygons_rows JSON_parse [r] [] = Inr [f]
         \<and> geometry f = \<lparr>g_type = Str ''LineString'',
                          coordinates = JArray [JArray [JNumber 1 0, JNumber 2 0],
                                                JArray [JNumber 3 0, JNumber 4 0]]\<rparr>"
    by (simp add: rows_single get_field_def JSON_parse_LineString del: addPolygons_rows.simps)
qed

theorem feature_fields_verbatim_witness:
  "row_LineString ''include'' = Some ''y''
   \<and> addPolygons_rows JSON_parse ([row_Point, row_upper] @ row_LineString # [row_Point]) []
        = Inr [feature_Point, feature_LineString, feature_Point]
   \<and> [feature_Point, feature_LineString, feature_Point] ! 1 = feature_LineString
   \<and> row_LineString ''geometry'' = Some ''[[1,2],[3,4]]''
   \<and> row_LineString ''geotype'' = Some ''LineString''
   \<and> addPolygons_rows JSON_parse [row_LineString] [] = Inr [feature_LineString]
   \<and> geometry feature_LineString =
        \<lparr>g_type = Str ''LineString'',
         coordinates = JArray [JArray [JNumber 1 0, JNumber 2 0], JArray [JNumber 3 0, JNumber 4 0]]\<rparr>"
proof -
  have a: "row_LineString ''include'' = Some ''y''" by (simp add: example_rows)
  have b: "addPolygons_rows JSON_parse ([row_Point, row_upper] @ row_LineString # [row_Point]) []
        = Inr [feature_Point, feature_LineString, feature_Point]"
    by (simp add: example_rows)
  have g: "row_LineString ''geometry'' = Some ''[[1,2],[3,4]]''" by (simp add: example_rows)
  have t: "row_LineString ''geotype'' = Some ''LineString''" by (simp add: example_rows)
  have n: "length (filter (\<lambda>r. r ''include'' = Some ''y'') [row_Point, row_upper]) = 1"
    by (simp add: example_rows)
  from feature_fields_verbatim [of row_LineString JSON_parse "[row_Point, row_upper]" "[row_Point]"
      "[feature_Point, feature_LineString, feature_Point]"] a b n
  have c: "[feature_Point, feature_LineString, feature_Point] ! 1 = feature_LineString"
    by simp
  from feature_fields_verbatim [of row_LineString JSON_parse "[]" "[]" "[]"] a g t
  obtain f where f: "addPolygons_rows JSON_parse [row_LineString] [] = Inr [f]"
    "geometry f = \<lparr>g_type = Str ''LineString'',
         coordinates = JArray [JArray [JNumber 1 0, JNumber 2 0], JArray [JNumber 3 0, JNumber 4 0]]\<rparr>"
    by blast
  have d: "addPolygons_rows JSON_parse [row_LineString] [] = Inr [feature_LineString]"
    by (simp add: example_rows)
  with f have "f = feature_LineString" by simp
  with a b c g t d f show ?thesis by simp
qed


section \<open>The callbacks as state updates\<close>

lemma L_marker_accepted:
  "accepted nan r \<Longrightarrow>
   L_marker nan (get_field r ''lat'', get_field r ''long'') =
     Inr \<lparr>latlng = (get_field r ''lat'', get_field r ''long''), popup = None, marker_icon = None\<rparr>"
  by (simp add: L_marker_def accepted_def)

lemma L_marker_refused:
  "\<not> accepted nan r \<Longrightarrow> L_marker nan (get_field r ''lat'', get_field r ''long'') = Inl Error"
  by (auto simp: L_marker_def accepted_def)

lemma addPoints_loop_eq:
  "objects st g = Some (LayerGroup ms) \<Longrightarrow>
   addPoints_loop nan data row g st =
     (if list_all (accepted nan) (drop row data) then Inr () else Inl Error,
      st\<lparr>objects := (objects st)(g \<mapsto>
            LayerGroup (ms @ map row_marker (takeWhile (accepted nan) (drop row data))))\<rparr>)"
proof (induction nan data row g st arbitrary: ms rule: addPoints_loop.induct)
  case (1 nan data row g st)
  have idem: "(objects st)(g \<mapsto> LayerGroup ms) = objects st"
    using "1.prems" by (simp add: fun_upd_idem)
  show ?case
  proof (cases "row < length data")
    case False
    with idem show ?thesis by (subst addPoints_loop.simps) simp
  next
    case True
    let ?r = "data ! row"
    have dr: "drop row data = ?r # drop (Suc row) data"
      using True by (simp add: Cons_nth_drop_Suc)
    show ?thesis
    proof (cases "accepted nan ?r")
      case False
      have "addPoints_loop nan data row g st = (Inl Error, st)"
        using True L_marker_refused [OF False] by (subst addPoints_loop.simps) simp
      with False idem show ?thesis by (simp add: dr)
    next
      case acc: True
      let ?m = "\<lparr>latlng = (get_field ?r ''lat'', get_field ?r ''long''), popup = None, marker_icon = None\<rparr>"
      let ?st = "marker_addTo (marker_setup ?r ?m) g st"
      have lm: "L_marker nan (get_field ?r ''lat'', get_field ?r ''long'') = Inr ?m"
        by (rule L_marker_accepted [OF acc])
      have obj: "objects ?st g = Some (LayerGroup (ms @ [row_marker ?r]))"
        using "1.prems" by (simp add: marker_addTo_def row_marker_def)
      have "addPoints_loop nan data row g st = addPoints_loop nan data (Suc row) g ?st"
        using True lm by (subst addPoints_loop.simps) simp
      also have "\<dots> =
        (if list_all (accepted nan) (drop (Suc row) data) then Inr () else Inl Error,
         ?st\<lparr>objects := (objects ?st)(g \<mapsto>
            LayerGroup ((ms @ [row_marker ?r]) @ map row_marker (takeWhile (accepted nan) (drop (Suc row) data))))\<rparr>)"
        by (rule "1.IH" [OF True lm obj])
      also have "\<dots> =
        (if list_all (accepted nan) (drop row data) then Inr () else Inl Error,
         st\<lparr>objects := (objects st)(g \<mapsto>
            LayerGroup (ms @ map row_marker (takeWhile (accepted nan) (drop row data))))\<rparr>)"
        using acc by (simp add: marker_addTo_def dr)
      finally show ?thesis .
    qed
  qed
qed

lemma addPolygons_fail:
  "geojsonPolys parse data = Inl e \<Longrightarrow>
   addPolygons geo parse data st = (Inl e, case polygonLayer st of None \<Rightarrow> st | Some old \<Rightarrow> remove old st)"
  by (simp add: addPolygons_def)

lemma addPolygons_refused:
  "geojsonPolys parse data = Inr gj \<Longrightarrow> geo gj = Some e \<Longrightarrow>
   addPolygons geo parse data st = (Inl e, case polygonLayer st of None \<Rightarrow> st | Some old \<Rightarrow> remove old st)"
  by (simp add: addPolygons_def)

lemma addPolygons_ok:
  "geojsonPolys parse data = Inr gj \<Longrightarrow> geo gj = None \<Longrightarrow>
   addPolygons geo parse data st =
     (Inr (),
      addTo_map (lastId st)
        ((case polygonLayer st of None \<Rightarrow> st | Some old \<Rightarrow> remove old st)
           \<lparr>objects := (objects st)(lastId st \<mapsto> GeoJSON gj polygonStyle), lastId := Suc (lastId st)\<rparr>)
        \<lparr>polygonLayer := Some (lastId st)\<rparr>)"
  by (simp add: addPolygons_def new_layer_def remove_def split: option.splits)

lemma addPolygons_Inl:
  "fst (addPolygons geo parse data st) = Inl e \<Longrightarrow>
   addPolygons geo parse data st = (Inl e, case polygonLayer st of None \<Rightarrow> st | Some old \<Rightarrow> remove old st)"
  by (cases "geojsonPolys parse data"; cases "geo (projr (geojsonPolys parse data))")
     (auto simp: addPolygons_fail addPolygons_refused addPolygons_ok)

lemma addPolygons_Inr:
  "fst (addPolygons geo parse data st) = Inr u \<Longrightarrow>
   \<exists>gj. geojsonPolys parse data = Inr gj \<and> geo gj = None"
  by (cases "geojsonPolys parse data"; cases "geo (projr (geojsonPolys parse data))")
     (auto simp: addPolygons_fail addPolygons_refused)

lemma addPoints_unfold:
  "addPoints nan data st =
     (if list_all (accepted nan) data then Inr () else Inl Error,
      (addTo_map (lastId st)
        ((case pointGroupLayer st of None \<Rightarrow> st | Some old \<Rightarrow> remove old st)
           \<lparr>objects := (objects st)(lastId st \<mapsto>
                LayerGroup (map row_marker (takeWhile (accepted nan) data))),
             lastId := Suc (lastId st)\<rparr>))
        \<lparr>pointGroupLayer := Some (lastId st)\<rparr>)"
proof -
  let ?st1 = "case pointGroupLayer st of None \<Rightarrow> st | Some old \<Rightarrow> remove old st"
  let ?g = "lastId st"
  let ?st3 = "(addTo_map ?g (?st1\<lparr>objects := (objects st)(?g \<mapsto> LayerGroup []), lastId := Suc ?g\<rparr>))
                \<lparr>pointGroupLayer := Some ?g\<rparr>"
  have unf: "addPoints nan data st = addPoints_loop nan data 0 ?g ?st3"
    by (simp add: addPoints_def new_layer_def remove_def split: option.splits)
  have obj: "objects ?st3 ?g = Some (LayerGroup [])"
    by (simp add: addTo_map_def)
  show ?thesis
    unfolding unf addPoints_loop_eq [OF obj]
    by (simp add: addTo_map_def remove_def split: option.splits)
qed


section \<open>What the callbacks keep\<close>

lemma at_most_one:
  assumes "distinct xs" "set xs \<subseteq> set_option s"
  shows "length xs \<le> 1"
proof -
  have "card (set xs) \<le> card (set_option s)"
    using assms(2) by (intro card_mono) simp_all
  also have "\<dots> \<le> 1" by (cases s) simp_all
  finally show ?thesis using assms(1) by (simp add: distinct_card)
qed

lemma fresh_not_on_map: "layers_inv st \<Longrightarrow> lastId st \<notin> set (on_map st)"
  by (auto simp: layers_inv_def)

lemma layers_inv_init: "layers_inv init_page"
  by (simp add: layers_inv_def init_page_def polygon_layers_on_map_def point_groups_on_map_def)

lemma addBoundary_eq:
  "layers_inv st \<Longrightarrow>
   addBoundary st = st\<lparr>objects := (objects st)(lastId st \<mapsto> BoundaryOverlay),
                         lastId := Suc (lastId st), on_map := on_map st @ [lastId st]\<rparr>"
  by (simp add: addBoundary_def new_layer_def addTo_map_def fresh_not_on_map)

lemma layers_inv_boundary:
  assumes "layers_inv st"
  shows "layers_inv (addBoundary st)"
proof -
  have old: "\<forall>k \<in> set (on_map st). k \<noteq> lastId st"
    using assms by (auto simp: layers_inv_def)
  have p: "polygon_layers_on_map (addBoundary st) = polygon_layers_on_map st"
    unfolding addBoundary_eq [OF assms] polygon_layers_on_map_def using old
    by (auto intro: filter_cong)
  have q: "point_groups_on_map (addBoundary st) = point_groups_on_map st"
    unfolding addBoundary_eq [OF assms] point_groups_on_map_def using old
    by (auto intro: filter_cong)
  have r: "distinct (on_map (addBoundary st))" "\<forall>h \<in> set (on_map (addBoundary st)). h < lastId (addBoundary st)"
    using assms unfolding addBoundary_eq [OF assms] by (auto simp: layers_inv_def less_Suc_eq)
  have s: "\<forall>h \<in> set_option (polygonLayer (addBoundary st)). h < lastId (addBoundary st) \<and> is_GeoJSON (objects (addBoundary st) h)"
    "\<forall>h \<in> set_option (pointGroupLayer (addBoundary st)). h < lastId (addBoundary st) \<and> is_LayerGroup (objects (addBoundary st) h)"
    using assms unfolding addBoundary_eq [OF assms] by (auto simp: layers_inv_def less_Suc_eq)
  have t: "polygonLayer (addBoundary st) = polygonLayer st" "pointGroupLayer (addBoundary st) = pointGroupLayer st"
    unfolding addBoundary_eq [OF assms] by simp_all
  from assms have "set (polygon_layers_on_map st) \<subseteq> set_option (polygonLayer st)"
    "set (point_groups_on_map st) \<subseteq> set_option (pointGroupLayer st)"
    by (simp_all add: layers_inv_def)
  with p q r s t show ?thesis unfolding layers_inv_def by simp
qed


lemma remove_old_facts:
  assumes inv: "layers_inv st"
  defines "xs \<equiv> (case polygonLayer st of None \<Rightarrow> on_map st | Some old \<Rightarrow> removeAll old (on_map st))"
  shows "distinct xs" and "\<forall>k \<in> set xs. k < lastId st" and "\<forall>k \<in> set xs. \<not> is_GeoJSON (objects st k)"
    and "filter (\<lambda>k. is_LayerGroup (objects st k)) xs = point_groups_on_map st"
proof -
  show "distinct xs" using inv by (auto simp: xs_def layers_inv_def distinct_removeAll split: option.splits)
  show "\<forall>k \<in> set xs. k < lastId st" using inv by (auto simp: xs_def layers_inv_def split: option.splits)
  show "\<forall>k \<in> set xs. \<not> is_GeoJSON (objects st k)"
  proof
    fix k assume k: "k \<in> set xs"
    show "\<not> is_GeoJSON (objects st k)"
    proof
      assume g: "is_GeoJSON (objects st k)"
      from k have "k \<in> set (on_map st)" by (auto simp: xs_def split: option.splits)
      with g have "k \<in> set (polygon_layers_on_map st)" by (simp add: polygon_layers_on_map_def)
      with inv have "polygonLayer st = Some k" by (auto simp: layers_inv_def)
      with k show False by (simp add: xs_def)
    qed
  qed
  show "filter (\<lambda>k. is_LayerGroup (objects st k)) xs = point_groups_on_map st"
  proof (cases "polygonLayer st")
    case None
    then show ?thesis by (simp add: xs_def point_groups_on_map_def)
  next
    case (Some old)
    with inv have "is_GeoJSON (objects st old)" by (simp add: layers_inv_def)
    then have "\<not> is_LayerGroup (objects st old)"
      by (cases "objects st old" rule: is_GeoJSON.cases) simp_all
    then have "filter (\<lambda>k. is_LayerGroup (objects st k)) (removeAll old (on_map st))
                 = filter (\<lambda>k. is_LayerGroup (objects st k)) (on_map st)"
      by (induction "on_map st") (auto simp: removeAll_filter_not_eq intro: filter_cong)
    with Some show ?thesis by (simp add: xs_def point_groups_on_map_def)
  qed
qed


lemma addPolygons_ok_state:
  assumes inv: "layers_inv st" and ok: "geojsonPolys parse data = Inr gj" and acc: "geo gj = None"
  defines "st' \<equiv> snd (addPolygons geo parse data st)"
  shows "fst (addPolygons geo parse data st) = Inr ()"
    and "polygonLayer st' = Some (lastId st)"
    and "objects st' = (objects st)(lastId st \<mapsto> GeoJSON gj polygonStyle)"
    and "polygon_layers_on_map st' = [lastId st]"
    and "point_groups_on_map st' = point_groups_on_map st"
    and "pointGroupLayer st' = pointGroupLayer st"
    and "lastId st' = Suc (lastId st)"
    and "layers_inv st'"
    and "on_map st' = (case polygonLayer st of None \<Rightarrow> on_map st | Some old \<Rightarrow> removeAll old (on_map st))
                       @ [lastId st]"
proof -
  let ?h = "lastId st"
  let ?xs = "case polygonLayer st of None \<Rightarrow> on_map st | Some old \<Rightarrow> removeAll old (on_map st)"
  note xs = remove_old_facts [OF inv]
  have fresh: "?h \<notin> set ?xs" using xs(2) by auto
  show on: "on_map st' = ?xs @ [?h]"
    using fresh unfolding st'_def addPolygons_ok [where geo = geo, OF ok acc]
    by (simp add: addTo_map_def remove_def split: option.splits)
  show res: "fst (addPolygons geo parse data st) = Inr ()"
    unfolding addPolygons_ok [where geo = geo, OF ok acc] by simp
  show slot: "polygonLayer st' = Some ?h"
    unfolding st'_def addPolygons_ok [where geo = geo, OF ok acc] by (simp add: addTo_map_def)
  show obj: "objects st' = (objects st)(?h \<mapsto> GeoJSON gj polygonStyle)"
    unfolding st'_def addPolygons_ok [where geo = geo, OF ok acc] by (simp add: addTo_map_def)
  show other: "pointGroupLayer st' = pointGroupLayer st"
    unfolding st'_def addPolygons_ok [where geo = geo, OF ok acc] by (simp add: addTo_map_def remove_def split: option.splits)
  show last: "lastId st' = Suc ?h"
    unfolding st'_def addPolygons_ok [where geo = geo, OF ok acc] by (simp add: addTo_map_def)
  have same: "\<forall>k \<in> set ?xs. objects st' k = objects st k"
    using fresh by (auto simp: obj)
  have "filter (\<lambda>k. is_GeoJSON (objects st' k)) ?xs = filter (\<lambda>k. is_GeoJSON (objects st k)) ?xs"
    using same by (intro filter_cong) simp_all
  also have "\<dots> = []" using xs(3) by (simp add: filter_empty_conv)
  finally show poly: "polygon_layers_on_map st' = [?h]"
    by (simp add: polygon_layers_on_map_def on obj)
  have "filter (\<lambda>k. is_LayerGroup (objects st' k)) ?xs = filter (\<lambda>k. is_LayerGroup (objects st k)) ?xs"
    using same by (intro filter_cong) simp_all
  then show pts: "point_groups_on_map st' = point_groups_on_map st"
    using xs(4) by (simp add: point_groups_on_map_def on obj)
  have d: "distinct (on_map st')" using xs(1) fresh by (simp add: on)
  have b: "\<forall>k \<in> set (on_map st'). k < lastId st'" using xs(2) by (auto simp: on last less_Suc_eq)
  have s1: "\<forall>k \<in> set_option (polygonLayer st'). k < lastId st' \<and> is_GeoJSON (objects st' k)"
    by (simp add: slot last obj)
  have s2: "\<forall>k \<in> set_option (pointGroupLayer st'). k < lastId st' \<and> is_LayerGroup (objects st' k)"
    using inv by (auto simp: other last obj layers_inv_def less_Suc_eq)
  have s3: "set (point_groups_on_map st') \<subseteq> set_option (pointGroupLayer st')"
    using inv by (simp add: pts other layers_inv_def)
  show "layers_inv st'"
    unfolding layers_inv_def using d b s1 s2 s3 by (simp add: poly slot)
qed

lemma addPolygons_fail_state:
  assumes inv: "layers_inv st" and bad: "fst (addPolygons geo parse data st) = Inl e"
  defines "st' \<equiv> snd (addPolygons geo parse data st)"
  shows "addPolygons geo parse data st =
           (Inl e, case polygonLayer st of None \<Rightarrow> st | Some old \<Rightarrow> remove old st)"
    and "polygonLayer st' = polygonLayer st"
    and "objects st' = objects st"
    and "lastId st' = lastId st"
    and "polygon_layers_on_map st' = []"
    and "point_groups_on_map st' = point_groups_on_map st"
    and "pointGroupLayer st' = pointGroupLayer st"
    and "layers_inv st'"
    and "on_map st' = (case polygonLayer st of None \<Rightarrow> on_map st | Some old \<Rightarrow> removeAll old (on_map st))"
proof -
  let ?xs = "case polygonLayer st of None \<Rightarrow> on_map st | Some old \<Rightarrow> removeAll old (on_map st)"
  note xs = remove_old_facts [OF inv]
  show on: "on_map st' = ?xs"
    unfolding st'_def addPolygons_Inl [OF bad] by (simp add: remove_def split: option.splits)
  show "addPolygons geo parse data st =
           (Inl e, case polygonLayer st of None \<Rightarrow> st | Some old \<Rightarrow> remove old st)"
    by (rule addPolygons_Inl [OF bad])
  show slot: "polygonLayer st' = polygonLayer st"
    unfolding st'_def addPolygons_Inl [OF bad] by (simp add: remove_def split: option.splits)
  show obj: "objects st' = objects st"
    unfolding st'_def addPolygons_Inl [OF bad] by (simp add: remove_def split: option.splits)
  show last: "lastId st' = lastId st"
    unfolding st'_def addPolygons_Inl [OF bad] by (simp add: remove_def split: option.splits)
  show other: "pointGroupLayer st' = pointGroupLayer st"
    unfolding st'_def addPolygons_Inl [OF bad] by (simp add: remove_def split: option.splits)
  show poly: "polygon_layers_on_map st' = []"
    using xs(3) by (simp add: polygon_layers_on_map_def on obj filter_empty_conv)
  show pts: "point_groups_on_map st' = point_groups_on_map st"
    using xs(4) by (simp add: point_groups_on_map_def on obj)
  have d: "distinct (on_map st')" using xs(1) by (simp add: on)
  have b: "\<forall>k \<in> set (on_map st'). k < lastId st'" using xs(2) by (simp add: on last)
  have s1: "\<forall>k \<in> set_option (polygonLayer st'). k < lastId st' \<and> is_GeoJSON (objects st' k)"
    using inv by (simp add: slot last obj layers_inv_def)
  have s2: "\<forall>k \<in> set_option (pointGroupLayer st'). k < lastId st' \<and> is_LayerGroup (objects st' k)"
    using inv by (simp add: other last obj layers_inv_def)
  have s3: "set (point_groups_on_map st') \<subseteq> set_option (pointGroupLayer st')"
    using inv by (simp add: pts other layers_inv_def)
  show "layers_inv st'"
    unfolding layers_inv_def using d b s1 s2 s3 by (simp add: poly)
qed


lemma remove_old_group_facts:
  assumes inv: "layers_inv st"
  defines "xs \<equiv> (case pointGroupLayer st of None \<Rightarrow> on_map st | Some old \<Rightarrow> removeAll old (on_map st))"
  shows "distinct xs" and "\<forall>k \<in> set xs. k < lastId st" and "\<forall>k \<in> set xs. \<not> is_LayerGroup (objects st k)"
    and "filter (\<lambda>k. is_GeoJSON (objects st k)) xs = polygon_layers_on_map st"
proof -
  show "distinct xs" using inv by (auto simp: xs_def layers_inv_def distinct_removeAll split: option.splits)
  show "\<forall>k \<in> set xs. k < lastId st" using inv by (auto simp: xs_def layers_inv_def split: option.splits)
  show "\<forall>k \<in> set xs. \<not> is_LayerGroup (objects st k)"
  proof
    fix k assume k: "k \<in> set xs"
    show "\<not> is_LayerGroup (objects st k)"
    proof
      assume g: "is_LayerGroup (objects st k)"
      from k have "k \<in> set (on_map st)" by (auto simp: xs_def split: option.splits)
      with g have "k \<in> set (point_groups_on_map st)" by (simp add: point_groups_on_map_def)
      with inv have "pointGroupLayer st = Some k" by (auto simp: layers_inv_def)
      with k show False by (simp add: xs_def)
    qed
  qed
  show "filter (\<lambda>k. is_GeoJSON (objects st k)) xs = polygon_layers_on_map st"
  proof (cases "pointGroupLayer st")
    case None
    then show ?thesis by (simp add: xs_def polygon_layers_on_map_def)
  next
    case (Some old)
    with inv have "is_LayerGroup (objects st old)" by (simp add: layers_inv_def)
    then have "\<not> is_GeoJSON (objects st old)"
      by (cases "objects st old" rule: is_LayerGroup.cases) simp_all
    then have "filter (\<lambda>k. is_GeoJSON (objects st k)) (removeAll old (on_map st))
                 = filter (\<lambda>k. is_GeoJSON (objects st k)) (on_map st)"
      by (induction "on_map st") (auto simp: removeAll_filter_not_eq intro: filter_cong)
    with Some show ?thesis by (simp add: xs_def polygon_layers_on_map_def)
  qed
qed

lemma addPoints_state:
  fixes data :: "row list" and nan :: "cell \<Rightarrow> bool"
  assumes inv: "layers_inv st"
  defines "st' \<equiv> snd (addPoints nan data st)"
  shows "pointGroupLayer st' = Some (lastId st)"
    and "objects st' = (objects st)(lastId st \<mapsto> LayerGroup (map row_marker (takeWhile (accepted nan) data)))"
    and "point_groups_on_map st' = [lastId st]"
    and "polygon_layers_on_map st' = polygon_layers_on_map st"
    and "polygonLayer st' = polygonLayer st"
    and "lastId st' = Suc (lastId st)"
    and "layers_inv st'"
    and "on_map st' = (case pointGroupLayer st of None \<Rightarrow> on_map st | Some old \<Rightarrow> removeAll old (on_map st))
                       @ [lastId st]"
proof -
  let ?h = "lastId st"
  let ?xs = "case pointGroupLayer st of None \<Rightarrow> on_map st | Some old \<Rightarrow> removeAll old (on_map st)"
  note xs = remove_old_group_facts [OF inv]
  have fresh: "?h \<notin> set ?xs" using xs(2) by auto
  show on: "on_map st' = ?xs @ [?h]"
    using fresh unfolding st'_def addPoints_unfold
    by (simp add: addTo_map_def remove_def split: option.splits)
  show slot: "pointGroupLayer st' = Some ?h"
    unfolding st'_def addPoints_unfold by (simp add: addTo_map_def)
  show obj: "objects st' = (objects st)(?h \<mapsto> LayerGroup (map row_marker (takeWhile (accepted nan) data)))"
    unfolding st'_def addPoints_unfold by (simp add: addTo_map_def)
  show other: "polygonLayer st' = polygonLayer st"
    unfolding st'_def addPoints_unfold by (simp add: addTo_map_def remove_def split: option.splits)
  show last: "lastId st' = Suc ?h"
    unfolding st'_def addPoints_unfold by (simp add: addTo_map_def)
  have same: "\<forall>k \<in> set ?xs. objects st' k = objects st k"
    using fresh by (auto simp: obj)
  have "filter (\<lambda>k. is_LayerGroup (objects st' k)) ?xs = filter (\<lambda>k. is_LayerGroup (objects st k)) ?xs"
    using same by (intro filter_cong) simp_all
  also have "\<dots> = []" using xs(3) by (simp add: filter_empty_conv)
  finally show pts: "point_groups_on_map st' = [?h]"
    by (simp add: point_groups_on_map_def on obj)
  have "filter (\<lambda>k. is_GeoJSON (objects st' k)) ?xs = filter (\<lambda>k. is_GeoJSON (objects st k)) ?xs"
    using same by (intro filter_cong) simp_all
  then show poly: "polygon_layers_on_map st' = polygon_layers_on_map st"
    using xs(4) by (simp add: polygon_layers_on_map_def on obj)
  have d: "distinct (on_map st')" using xs(1) fresh by (simp add: on)
  have b: "\<forall>k \<in> set (on_map st'). k < lastId st'" using xs(2) by (auto simp: on last less_Suc_eq)
  have s1: "\<forall>k \<in> set_option (pointGroupLayer st'). k < lastId st' \<and> is_LayerGroup (objects st' k)"
    by (simp add: slot last obj)
  have s2: "\<forall>k \<in> set_option (polygonLayer st'). k < lastId st' \<and> is_GeoJSON (objects st' k)"
    using inv by (auto simp: other last obj layers_inv_def less_Suc_eq)
  have s3: "set (polygon_layers_on_map st') \<subseteq> set_option (polygonLayer st')"
    using inv by (simp add: poly other layers_inv_def)
  show "layers_inv st'"
    unfolding layers_inv_def using d b s1 s2 s3 by (simp add: pts slot)
qed

lemma reachable_inv: "reachable st \<Longrightarrow> layers_inv st"
proof (induction rule: reachable.induct)
  case start
  show ?case by (rule layers_inv_init)
next
  case (boundary st)
  then show ?case by (simp add: layers_inv_boundary)
next
  case (polygons st geo parse data)
  show ?case
  proof (cases "fst (addPolygons geo parse data st)")
    case (Inl e)
    from addPolygons_fail_state(8) [OF polygons.IH Inl] show ?thesis .
  next
    case (Inr u)
    from addPolygons_Inr [OF Inr] obtain gj where "geojsonPolys parse data = Inr gj" "geo gj = None"
      by blast
    from addPolygons_ok_state(8) [where geo = geo, OF polygons.IH this] show ?thesis .
  qed
next
  case (points st nan data)
  from addPoints_state(7) [OF points.IH] show ?case .
qed


lemma rows_malformed:
  "r \<in> set data \<Longrightarrow> r ''include'' = Some ''y'' \<Longrightarrow>
   parse (ToString (get_field r ''geometry'')) = None \<Longrightarrow>
   addPolygons_rows parse data fs = Inl SyntaxError"
proof (induction data arbitrary: fs)
  case Nil
  then show ?case by simp
next
  case (Cons x xs)
  show ?case
  proof (cases "x = r")
    case True
    with Cons.prems show ?thesis by (simp add: included_iff)
  next
    case False
    with Cons.prems have "r \<in> set xs" by simp
    from Cons.IH [OF this Cons.prems(2,3)] show ?thesis
      by (simp split: option.splits)
  qed
qed

lemma geojsonPolys_example:
  "geojsonPolys JSON_parse [row_LineString]
     = Inr \<lparr>c_type = ''FeatureCollection'', features = [feature_LineString]\<rparr>"
  "geojsonPolys JSON_parse [row_upper, row_Point]
     = Inr \<lparr>c_type = ''FeatureCollection'', features = [feature_Point]\<rparr>"
  "geojsonPolys JSON_parse [row_LineString, row_malformed] = Inl SyntaxError"
  "geojsonPolys JSON_parse [row_Point, row_lowercase_kind]
     = Inr \<lparr>c_type = ''FeatureCollection'', features = [feature_Point, feature_lowercase_kind]\<rparr>"
  by (simp_all add: geojsonPolys_def example_rows row_lowercase_kind_def feature_lowercase_kind_def)

lemma geometryToLayer_example:
  "geometryToLayer polygonStyle feature_LineString = Inr (Path (setStyle polygonStyle Map.empty))"
  "geometryToLayer polygonStyle feature_Point = Inr Marker"
  "geometryToLayer polygonStyle feature_lowercase_kind = Inl Error"
  by (simp_all add: geometryToLayer_def feature_LineString_def feature_Point_def
      feature_lowercase_kind_def)

lemma leaflet_geoJSON_example:
  "leaflet_geoJSON \<lparr>c_type = ''FeatureCollection'', features = [feature_LineString]\<rparr> = None"
  "leaflet_geoJSON \<lparr>c_type = ''FeatureCollection'', features = [feature_Point]\<rparr> = None"
  "leaflet_geoJSON \<lparr>c_type = ''FeatureCollection'', features = [feature_Point, feature_lowercase_kind]\<rparr>
     = Some Error"
  by (simp_all add: leaflet_geoJSON_def geometryToLayer_example)

lemma isNaN_latitude: "isNaN (Str ''30.1'') = False"
  by code_simp

lemma isNaN_longitude: "isNaN (Str ''-90.2'') = False"
  by code_simp

lemma isNaN_north: "isNaN (Str ''north'') = True"
  by code_simp

lemma accepted_example: "accepted isNaN row_flag" "\<not> accepted isNaN row_no_position"
  by (simp_all add: accepted_def row_flag_def row_no_position_def get_field_def
      isNaN_latitude isNaN_longitude isNaN_north del: isNaN.simps(2))

lemmas page_defs =
  addPolygons_def addPoints_unfold new_layer_def addTo_map_def remove_def init_page_def
  polygon_layers_on_map_def point_groups_on_map_def geojsonPolys_example leaflet_geoJSON_example
  accepted_example

section \<open>A malformed geometry cell\<close>

text \<open>
  Claim C2. When a row with \<^verbatim>\<open>include\<close> equal to \<^verbatim>\<open>y\<close> has a \<^verbatim>\<open>geometry\<close> cell
  that the parser rejects, \<^verbatim>\<open>addPolygons\<close> stops with the parser's SyntaxError: no
  collection is built, not even from the rows before the bad one, no layer is created and
  none is attached. The layer that was in the slot has been taken off the map by then, so
  the map is left without any polygon layer.
\<close>

theorem malformed_geometry_aborts:
  assumes "r \<in> set data" and "r ''include'' = Some ''y''"
    and "parse (ToString (get_field r ''geometry'')) = None"
    and "reachable st"
  shows "geojsonPolys parse data = Inl SyntaxError
    \<and> addPolygons geo parse data st =
        (Inl SyntaxError, case polygonLayer st of None \<Rightarrow> st | Some old \<Rightarrow> remove old st)
    \<and> objects (snd (addPolygons geo parse data st)) = objects st
    \<and> lastId (snd (addPolygons geo parse data st)) = lastId st
    \<and> (\<forall>old. polygonLayer st = Some old \<longrightarrow> old \<notin> set (on_map (snd (addPolygons geo parse data st))))
    \<and> polygon_layers_on_map (snd (addPolygons geo parse data st)) = []"
proof -
  have bad: "geojsonPolys parse data = Inl SyntaxError"
    using rows_malformed [of r data parse "[]"] assms(1-3) by (simp add: geojsonPolys_def)
  have inv: "layers_inv st" using assms(4) by (rule reachable_inv)
  have res: "fst (addPolygons geo parse data st) = Inl SyntaxError"
    by (simp add: addPolygons_fail [OF bad])
  note f = addPolygons_fail_state [OF inv res]
  have "\<forall>old. polygonLayer st = Some old \<longrightarrow> old \<notin> set (on_map (snd (addPolygons geo parse data st)))"
    by (simp add: f(9))
  with bad f(1,3,4,5) show ?thesis by simp
qed

theorem malformed_geometry_aborts_witness:
  "row_malformed \<in> set [row_LineString, row_malformed]
   \<and> row_malformed ''include'' = Some ''y''
   \<and> JSON_parse (ToString (get_field row_malformed ''geometry'')) = None
   \<and> reachable (snd (addPolygons leaflet_geoJSON JSON_parse [row_LineString] init_page))
   \<and> polygon_layers_on_map (snd (addPolygons leaflet_geoJSON JSON_parse [row_LineString] init_page)) = [1]
   \<and> fst (addPolygons leaflet_geoJSON JSON_parse [row_LineString, row_malformed]
           (snd (addPolygons leaflet_geoJSON JSON_parse [row_LineString] init_page))) = Inl SyntaxError
   \<and> polygon_layers_on_map
        (snd (addPolygons leaflet_geoJSON JSON_parse [row_LineString, row_malformed]
               (snd (addPolygons leaflet_geoJSON JSON_parse [row_LineString] init_page)))) = []
   \<and> on_map
        (snd (addPolygons leaflet_geoJSON JSON_parse [row_LineString, row_malformed]
               (snd (addPolygons leaflet_geoJSON JSON_parse [row_LineString] init_page)))) = [0]"
proof -
  let ?st = "snd (addPolygons leaflet_geoJSON JSON_parse [row_LineString] init_page)"
  have a: "row_malformed \<in> set [row_LineString, row_malformed]" by simp
  have b: "row_malformed ''include'' = Some ''y''" by (simp add: example_rows)
  have c: "JSON_parse (ToString (get_field row_malformed ''geometry'')) = None"
    by (simp add: example_rows)
  have d: "reachable ?st" by (intro reachable.intros)
  have e: "polygon_layers_on_map ?st = [1]" by (simp add: page_defs)
  have f: "on_map (snd (addPolygons leaflet_geoJSON JSON_parse [row_LineString, row_malformed] ?st)) = [0]"
    by (simp add: page_defs)
  note t = malformed_geometry_aborts [of row_malformed "[row_LineString, row_malformed]" JSON_parse ?st
      leaflet_geoJSON, OF a b c d]
  from t have g: "fst (addPolygons leaflet_geoJSON JSON_parse [row_LineString, row_malformed] ?st) = Inl SyntaxError"
    by simp
  from t have h: "polygon_layers_on_map (snd (addPolygons leaflet_geoJSON JSON_parse [row_LineString, row_malformed] ?st)) = []"
    by blast
  from a b c d e f g h show ?thesis by blast
qed

section \<open>One layer of each kind\<close>

text \<open>
  Claim C8. In every page the script can reach, at most one polygon layer and at most one
  group of point markers are on the map, and each of them is the layer in its slot. Each
  callback takes the layer in its own slot off the map before it attaches the new one, and
  leaves the other slot and the other kind's layer as they were. When \<^verbatim>\<open>addPolygons\<close> runs
  to its end twice in succession, the one polygon layer on the map afterwards shows the
  collection of the second call; likewise the one group on the map after \<^verbatim>\<open>addPoints\<close>
  has run to its end holds the markers of that call.
\<close>

theorem one_layer_per_kind:
  assumes "reachable st"
  shows "length (polygon_layers_on_map st) \<le> 1 \<and> length (point_groups_on_map st) \<le> 1
    \<and> set (polygon_layers_on_map st) \<subseteq> set_option (polygonLayer st)
    \<and> set (point_groups_on_map st) \<subseteq> set_option (pointGroupLayer st)
    \<and> (\<forall>old. polygonLayer st = Some old \<longrightarrow> old \<notin> set (on_map (snd (addPolygons geo parse d st))))
    \<and> (\<forall>old. pointGroupLayer st = Some old \<longrightarrow> old \<notin> set (on_map (snd (addPoints nan pts st))))
    \<and> pointGroupLayer (snd (addPolygons geo parse d st)) = pointGroupLayer st
    \<and> point_groups_on_map (snd (addPolygons geo parse d st)) = point_groups_on_map st
    \<and> polygonLayer (snd (addPoints nan pts st)) = polygonLayer st
    \<and> polygon_layers_on_map (snd (addPoints nan pts st)) = polygon_layers_on_map st
    \<and> (\<exists>g. pointGroupLayer (snd (addPoints nan pts st)) = Some g
           \<and> point_groups_on_map (snd (addPoints nan pts st)) = [g]
           \<and> (fst (addPoints nan pts st) = Inr () \<longrightarrow>
                objects (snd (addPoints nan pts st)) g = Some (LayerGroup (map row_marker pts))))
    \<and> (addPolygons geo parse d1 st = (Inr (), st1) \<longrightarrow>
        addPolygons geo parse d2 st1 = (Inr (), st2) \<longrightarrow>
          (\<exists>h gj2. geojsonPolys parse d2 = Inr gj2
             \<and> polygonLayer st2 = Some h
             \<and> polygon_layers_on_map st2 = [h]
             \<and> objects st2 h = Some (GeoJSON gj2 polygonStyle)))"
proof -
  have inv: "layers_inv st" using assms by (rule reachable_inv)
  have dp: "distinct (polygon_layers_on_map st)" "distinct (point_groups_on_map st)"
    using inv by (simp_all add: layers_inv_def polygon_layers_on_map_def point_groups_on_map_def)
  have sub: "set (polygon_layers_on_map st) \<subseteq> set_option (polygonLayer st)"
    "set (point_groups_on_map st) \<subseteq> set_option (pointGroupLayer st)"
    using inv by (simp_all add: layers_inv_def)
  have one: "length (polygon_layers_on_map st) \<le> 1" "length (point_groups_on_map st) \<le> 1"
    by (rule at_most_one [OF dp(1) sub(1)], rule at_most_one [OF dp(2) sub(2)])
  have below: "\<forall>old. polygonLayer st = Some old \<longrightarrow> old \<noteq> lastId st"
    "\<forall>old. pointGroupLayer st = Some old \<longrightarrow> old \<noteq> lastId st"
    using inv by (auto simp: layers_inv_def)
  have poly: "(\<forall>old. polygonLayer st = Some old \<longrightarrow> old \<notin> set (on_map (snd (addPolygons geo parse d st))))
    \<and> pointGroupLayer (snd (addPolygons geo parse d st)) = pointGroupLayer st
    \<and> point_groups_on_map (snd (addPolygons geo parse d st)) = point_groups_on_map st"
  proof (cases "fst (addPolygons geo parse d st)")
    case (Inl e)
    note f = addPolygons_fail_state [OF inv Inl]
    show ?thesis by (simp add: f(9) f(6) f(7))
  next
    case (Inr u)
    from addPolygons_Inr [OF Inr] obtain gj where ok: "geojsonPolys parse d = Inr gj" "geo gj = None"
      by blast
    note g = addPolygons_ok_state [where geo = geo, OF inv ok]
    show ?thesis using below(1) by (simp add: g(9) g(5) g(6))
  qed
  note p = addPoints_state [OF inv, of nan pts]
  have rem': "\<forall>old. pointGroupLayer st = Some old \<longrightarrow> old \<notin> set (on_map (snd (addPoints nan pts st)))"
    using below(2) by (simp add: p(8))
  have full: "fst (addPoints nan pts st) = Inr () \<longrightarrow> takeWhile (accepted nan) pts = pts"
    by (auto simp: addPoints_unfold list_all_iff split: if_splits)
  have grp: "\<exists>g. pointGroupLayer (snd (addPoints nan pts st)) = Some g
           \<and> point_groups_on_map (snd (addPoints nan pts st)) = [g]
           \<and> (fst (addPoints nan pts st) = Inr () \<longrightarrow>
                objects (snd (addPoints nan pts st)) g = Some (LayerGroup (map row_marker pts)))"
  proof (intro exI [of _ "lastId st"] conjI impI)
    show "pointGroupLayer (snd (addPoints nan pts st)) = Some (lastId st)" by (rule p(1))
    show "point_groups_on_map (snd (addPoints nan pts st)) = [lastId st]" by (rule p(3))
  next
    assume "fst (addPoints nan pts st) = Inr ()"
    with full have tw: "takeWhile (accepted nan) pts = pts" by blast
    show "objects (snd (addPoints nan pts st)) (lastId st) = Some (LayerGroup (map row_marker pts))"
      unfolding p(2) tw by simp
  qed
  have twice: "addPolygons geo parse d1 st = (Inr (), st1) \<longrightarrow>
        addPolygons geo parse d2 st1 = (Inr (), st2) \<longrightarrow>
          (\<exists>h gj2. geojsonPolys parse d2 = Inr gj2
             \<and> polygonLayer st2 = Some h
             \<and> polygon_layers_on_map st2 = [h]
             \<and> objects st2 h = Some (GeoJSON gj2 polygonStyle))"
  proof (intro impI)
    assume c1: "addPolygons geo parse d1 st = (Inr (), st1)"
      and c2: "addPolygons geo parse d2 st1 = (Inr (), st2)"
    from c1 have "fst (addPolygons geo parse d1 st) = Inr ()" by simp
    from addPolygons_Inr [OF this] obtain gj1 where ok1: "geojsonPolys parse d1 = Inr gj1" "geo gj1 = None"
      by blast
    have inv1: "layers_inv st1"
      using addPolygons_ok_state(8) [where geo = geo, OF inv ok1] c1 by simp
    from c2 have "fst (addPolygons geo parse d2 st1) = Inr ()" by simp
    from addPolygons_Inr [OF this] obtain gj2 where ok2: "geojsonPolys parse d2 = Inr gj2" "geo gj2 = None"
      by blast
    note g = addPolygons_ok_state [where geo = geo, OF inv1 ok2]
    from c2 have st2: "snd (addPolygons geo parse d2 st1) = st2" by simp
    show "\<exists>h gj2. geojsonPolys parse d2 = Inr gj2
             \<and> polygonLayer st2 = Some h
             \<and> polygon_layers_on_map st2 = [h]
             \<and> objects st2 h = Some (GeoJSON gj2 polygonStyle)"
      using ok2(1) g(2,3,4) unfolding st2 by simp
  qed
  from one sub poly rem' p(4,5) grp twice show ?thesis by blast
qed

theorem one_layer_per_kind_witness:
  "reachable (snd (addPoints isNaN [row_flag] (snd (addPolygons leaflet_geoJSON JSON_parse [row_LineString] init_page))))
   \<and> polygon_layers_on_map
        (snd (addPoints isNaN [row_flag] (snd (addPolygons leaflet_geoJSON JSON_parse [row_LineString] init_page)))) = [1]
   \<and> point_groups_on_map
        (snd (addPoints isNaN [row_flag] (snd (addPolygons leaflet_geoJSON JSON_parse [row_LineString] init_page)))) = [2]
   \<and> fst (addPolygons leaflet_geoJSON JSON_parse [row_LineString]
        (snd (addPoints isNaN [row_flag] (snd (addPolygons leaflet_geoJSON JSON_parse [row_LineString] init_page)))))
       = Inr ()
   \<and> fst (addPolygons leaflet_geoJSON JSON_parse [row_upper, row_Point]
        (snd (addPolygons leaflet_geoJSON JSON_parse [row_LineString]
          (snd (addPoints isNaN [row_flag] (snd (addPolygons leaflet_geoJSON JSON_parse [row_LineString] init_page)))))))
       = Inr ()
   \<and> polygon_layers_on_map
        (snd (addPolygons leaflet_geoJSON JSON_parse [row_upper, row_Point]
          (snd (addPolygons leaflet_geoJSON JSON_parse [row_LineString]
            (snd (addPoints isNaN [row_flag] (snd (addPolygons leaflet_geoJSON JSON_parse [row_LineString] init_page))))))))
       = [4]
   \<and> objects
        (snd (addPolygons leaflet_geoJSON JSON_parse [row_upper, row_Point]
          (snd (addPolygons leaflet_geoJSON JSON_parse [row_LineString]
            (snd (addPoints isNaN [row_flag] (snd (addPolygons leaflet_geoJSON JSON_parse [row_LineString] init_page))))))))
        4
       = Some (GeoJSON \<lparr>c_type = ''FeatureCollection'', features = [feature_Point]\<rparr> polygonStyle)"
proof -
  let ?st = "snd (addPoints isNaN [row_flag] (snd (addPolygons leaflet_geoJSON JSON_parse [row_LineString] init_page)))"
  let ?c1 = "addPolygons leaflet_geoJSON JSON_parse [row_LineString] ?st"
  let ?c2 = "addPolygons leaflet_geoJSON JSON_parse [row_upper, row_Point] (snd ?c1)"
  have a: "reachable ?st" by (intro reachable.intros)
  have b: "polygon_layers_on_map ?st = [1]" by (simp add: page_defs)
  have c: "point_groups_on_map ?st = [2]" by (simp add: page_defs)
  have r1: "fst ?c1 = Inr ()" by (simp add: page_defs)
  have r2: "fst ?c2 = Inr ()" by (simp add: page_defs)
  have e1: "?c1 = (Inr (), snd ?c1)" using r1 by (simp add: prod_eq_iff)
  have e2: "?c2 = (Inr (), snd ?c2)" using r2 by (simp add: prod_eq_iff)
  note t = one_layer_per_kind [where st = ?st and parse = JSON_parse and geo = leaflet_geoJSON
      and d = "[]" and pts = "[]" and nan = isNaN
      and ?d1.0 = "[row_LineString]" and ?d2.0 = "[row_upper, row_Point]"
      and ?st1.0 = "snd ?c1" and ?st2.0 = "snd ?c2", OF a]
  from t e1 e2 obtain h gj2 where
    h: "geojsonPolys JSON_parse [row_upper, row_Point] = Inr gj2"
       "polygonLayer (snd ?c2) = Some h" "polygon_layers_on_map (snd ?c2) = [h]"
       "objects (snd ?c2) h = Some (GeoJSON gj2 polygonStyle)"
    by blast
  from h(1) have gj: "gj2 = \<lparr>c_type = ''FeatureCollection'', features = [feature_Point]\<rparr>"
    by (simp add: geojsonPolys_example)
  have "polygonLayer (snd ?c2) = Some 4" by (simp add: page_defs)
  with h have "h = 4" by simp
  with a b c r1 r2 h gj show ?thesis by simp
qed

section \<open>The slot after a failed call\<close>

text \<open>
  Claim C10. A call of \<^verbatim>\<open>addPolygons\<close> that the parser's exception stops leaves the slot
  \<open>polygonLayer\<close> as it was: it still holds the handle of the previous layer, which is
  now off the map, and no layer was created. The next call that runs to its end finds the
  slot filled, removes that layer again, which changes nothing, creates the new layer,
  attaches it and stores it in the slot: the map then shows exactly that layer.
\<close>

theorem failed_call_keeps_slot:
  assumes "reachable st"
    and "geojsonPolys parse bad = Inl e"
    and "addPolygons geo parse bad st = (r1, st1)"
    and "addPolygons geo parse good st1 = (Inr (), st2)"
  shows "r1 = Inl e
    \<and> polygonLayer st1 = polygonLayer st
    \<and> objects st1 = objects st \<and> lastId st1 = lastId st
    \<and> (\<forall>old. polygonLayer st = Some old \<longrightarrow> polygonLayer st1 = Some old \<and> old \<notin> set (on_map st1))
    \<and> on_map st2 = on_map st1 @ [lastId st1]
    \<and> polygonLayer st2 = Some (lastId st1)
    \<and> polygonLayer st2 \<noteq> polygonLayer st
    \<and> (\<exists>gj. geojsonPolys parse good = Inr gj
          \<and> objects st2 (lastId st1) = Some (GeoJSON gj polygonStyle))
    \<and> polygon_layers_on_map st2 = [lastId st1]"
proof -
  have inv: "layers_inv st" using assms(1) by (rule reachable_inv)
  have st1: "st1 = snd (addPolygons geo parse bad st)" and r1: "r1 = fst (addPolygons geo parse bad st)"
    using assms(3) by simp_all
  have res: "fst (addPolygons geo parse bad st) = Inl e"
    by (simp add: addPolygons_fail [OF assms(2)])
  note f = addPolygons_fail_state [OF inv res, folded st1]
  have st2: "st2 = snd (addPolygons geo parse good st1)"
    using assms(4) by simp
  from assms(4) have "fst (addPolygons geo parse good st1) = Inr ()" by simp
  from addPolygons_Inr [OF this] obtain gj where ok: "geojsonPolys parse good = Inr gj" "geo gj = None"
    by blast
  note g = addPolygons_ok_state [where geo = geo, OF f(8) ok, folded st2]
  have off: "\<forall>old. polygonLayer st = Some old \<longrightarrow> polygonLayer st1 = Some old \<and> old \<notin> set (on_map st1)"
    by (simp add: f(2) f(9))
  have noop: "on_map st2 = on_map st1 @ [lastId st1]"
  proof (cases "polygonLayer st")
    case None
    then show ?thesis by (simp add: g(9) f(2))
  next
    case (Some old)
    with off have "old \<notin> set (on_map st1)" by simp
    with Some show ?thesis by (simp add: g(9) f(2))
  qed
  have fresh: "polygonLayer st2 \<noteq> polygonLayer st"
    using inv by (auto simp: g(2) f(4) layers_inv_def)
  have new: "\<exists>gj. geojsonPolys parse good = Inr gj
          \<and> objects st2 (lastId st1) = Some (GeoJSON gj polygonStyle)"
    using ok(1) by (simp add: g(3))
  have "r1 = Inl e" using res r1 by simp
  with f(2,3,4) off noop g(2) fresh new g(4) show ?thesis by simp
qed

theorem failed_call_keeps_slot_witness:
  "reachable (snd (addPolygons leaflet_geoJSON JSON_parse [row_LineString] init_page))
   \<and> geojsonPolys JSON_parse [row_LineString, row_malformed] = Inl SyntaxError
   \<and> polygonLayer (snd (addPolygons leaflet_geoJSON JSON_parse [row_LineString] init_page)) = Some 1
   \<and> polygonLayer (snd (addPolygons leaflet_geoJSON JSON_parse [row_LineString, row_malformed]
        (snd (addPolygons leaflet_geoJSON JSON_parse [row_LineString] init_page)))) = Some 1
   \<and> on_map (snd (addPolygons leaflet_geoJSON JSON_parse [row_LineString, row_malformed]
        (snd (addPolygons leaflet_geoJSON JSON_parse [row_LineString] init_page)))) = [0]
   \<and> fst (addPolygons leaflet_geoJSON JSON_parse [row_upper, row_Point]
        (snd (addPolygons leaflet_geoJSON JSON_parse [row_LineString, row_malformed]
          (snd (addPolygons leaflet_geoJSON JSON_parse [row_LineString] init_page))))) = Inr ()
   \<and> polygonLayer (snd (addPolygons leaflet_geoJSON JSON_parse [row_upper, row_Point]
        (snd (addPolygons leaflet_geoJSON JSON_parse [row_LineString, row_malformed]
          (snd (addPolygons leaflet_geoJSON JSON_parse [row_LineString] init_page)))))) = Some 2
   \<and> polygon_layers_on_map (snd (addPolygons leaflet_geoJSON JSON_parse [row_upper, row_Point]
        (snd (addPolygons leaflet_geoJSON JSON_parse [row_LineString, row_malformed]
          (snd (addPolygons leaflet_geoJSON JSON_parse [row_LineString] init_page)))))) = [2]"
proof -
  let ?st = "snd (addPolygons leaflet_geoJSON JSON_parse [row_LineString] init_page)"
  let ?c1 = "addPolygons leaflet_geoJSON JSON_parse [row_LineString, row_malformed] ?st"
  let ?c2 = "addPolygons leaflet_geoJSON JSON_parse [row_upper, row_Point] (snd ?c1)"
  have a: "reachable ?st" by (intro reachable.intros)
  have b: "?c1 = (fst ?c1, snd ?c1)" by simp
  have r2: "fst ?c2 = Inr ()" by (simp add: page_defs)
  then have c: "?c2 = (Inr (), snd ?c2)" by (simp add: prod_eq_iff)
  note t = failed_call_keeps_slot [where geo = leaflet_geoJSON, OF a geojsonPolys_example(3) b c]
  have d: "polygonLayer ?st = Some 1" by (simp add: page_defs)
  have l: "lastId (snd ?c1) = 2" by (simp add: page_defs)
  have o: "on_map (snd ?c1) = [0]" by (simp add: page_defs)
  from t d have e: "polygonLayer (snd ?c1) = Some 1" by simp
  from t l have f: "polygonLayer (snd ?c2) = Some 2" by simp
  from t l have g: "polygon_layers_on_map (snd ?c2) = [2]" by simp
  from a d e o r2 f g geojsonPolys_example(3) show ?thesis by simp
qed

section \<open>Markers of the point table\<close>

lemma row_marker_eq:
  "row_marker r =
     \<lparr>latlng = (get_field r ''lat'', get_field r ''long''),
      popup = Some (''<h2>'' @ ToString (get_field r ''Type'') @ ''</h2><br>''
                    @ ToString (get_field r ''Title'') @ ''<br>''
                    @ ToString (get_field r ''Comments'')),
      marker_icon = Some \<lparr>icon = get_field r ''Marker_Icon'', iconColor = ''white'',
                           markerColor = get_field r ''Color'', prefix = ''fa'',
                           extraClasses = ''flip-horizontal''\<rparr>\<rparr>"
  by (simp add: row_marker_def marker_setup_def bindPopup_def setIcon_def)

lemma get_field_upd:
  "get_field (r(k \<mapsto> v)) name = (if name = k then Str v else get_field r name)"
  by (simp add: get_field_def)

lemma addPoints_group:
  "objects (snd (addPoints nan data st)) (lastId st)
     = Some (LayerGroup (map row_marker (takeWhile (accepted nan) data)))"
  by (simp add: addPoints_unfold addTo_map_def)





text \<open>
  Claim C9. In the icon of every marker the glyph colour is \<^verbatim>\<open>white\<close>, the prefix is
  \<^verbatim>\<open>fa\<close> and the extra class is \<^verbatim>\<open>flip-horizontal\<close>, whatever the row holds. The row's
  \<^verbatim>\<open>Color\<close> cell is the marker colour and changes nothing else of the marker; the row's
  \<^verbatim>\<open>Marker_Icon\<close> cell is the glyph name and changes nothing else of the marker.
\<close>

theorem icon_constants:
  "(\<exists>i. marker_icon (row_marker r) = Some i
       \<and> iconColor i = ''white'' \<and> prefix i = ''fa'' \<and> extraClasses i = ''flip-horizontal''
       \<and> icon i = get_field r ''Marker_Icon'' \<and> markerColor i = get_field r ''Color''
       \<and> row_marker (r(''Color'' \<mapsto> c)) = (row_marker r)\<lparr>marker_icon := Some (i\<lparr>markerColor := Str c\<rparr>)\<rparr>
       \<and> row_marker (r(''Marker_Icon'' \<mapsto> n)) = (row_marker r)\<lparr>marker_icon := Some (i\<lparr>icon := Str n\<rparr>)\<rparr>)
   \<and> (\<forall>m \<in> set (group_markers (objects (snd (addPoints nan data st)) (lastId st))).
        \<exists>i. marker_icon m = Some i
          \<and> iconColor i = ''white'' \<and> prefix i = ''fa'' \<and> extraClasses i = ''flip-horizontal'')"
proof (intro conjI)
  show "\<exists>i. marker_icon (row_marker r) = Some i
       \<and> iconColor i = ''white'' \<and> prefix i = ''fa'' \<and> extraClasses i = ''flip-horizontal''
       \<and> icon i = get_field r ''Marker_Icon'' \<and> markerColor i = get_field r ''Color''
       \<and> row_marker (r(''Color'' \<mapsto> c)) = (row_marker r)\<lparr>marker_icon := Some (i\<lparr>markerColor := Str c\<rparr>)\<rparr>
       \<and> row_marker (r(''Marker_Icon'' \<mapsto> n)) = (row_marker r)\<lparr>marker_icon := Some (i\<lparr>icon := Str n\<rparr>)\<rparr>"
    by (simp add: row_marker_eq get_field_upd)
next
  show "\<forall>m \<in> set (group_markers (objects (snd (addPoints nan data st)) (lastId st))).
        \<exists>i. marker_icon m = Some i
          \<and> iconColor i = ''white'' \<and> prefix i = ''fa'' \<and> extraClasses i = ''flip-horizontal''"
    unfolding addPoints_group by (auto simp: row_marker_eq)
qed

theorem icon_constants_witness:
  "marker_icon (row_marker row_flag)
     = Some \<lparr>icon = Str ''flag'', iconColor = ''white'', markerColor = Str ''red'',
             prefix = ''fa'', extraClasses = ''flip-horizontal''\<rparr>
   \<and> marker_icon (row_marker (row_flag(''Color'' \<mapsto> ''white-on-black'')))
     = Some \<lparr>icon = Str ''flag'', iconColor = ''white'', markerColor = Str ''white-on-black'',
             prefix = ''fa'', extraClasses = ''flip-horizontal''\<rparr>
   \<and> group_markers (objects (snd (addPoints isNaN [row_flag] init_page)) (lastId init_page))
       = [row_marker row_flag]
   \<and> row_marker row_flag
       \<in> set (group_markers (objects (snd (addPoints isNaN [row_flag] init_page)) (lastId init_page)))
   \<and> (\<exists>i. marker_icon (row_marker row_flag) = Some i
          \<and> iconColor i = ''white'' \<and> prefix i = ''fa'' \<and> extraClasses i = ''flip-horizontal'')"
proof -
  have a: "marker_icon (row_marker row_flag)
     = Some \<lparr>icon = Str ''flag'', iconColor = ''white'', markerColor = Str ''red'',
             prefix = ''fa'', extraClasses = ''flip-horizontal''\<rparr>"
    by (simp add: row_marker_eq row_flag_def get_field_def)
  have g: "group_markers (objects (snd (addPoints isNaN [row_flag] init_page)) (lastId init_page))
      = [row_marker row_flag]"
    unfolding addPoints_group by (simp add: accepted_example)
  then have m: "row_marker row_flag
      \<in> set (group_markers (objects (snd (addPoints isNaN [row_flag] init_page)) (lastId init_page)))"
    by simp
  note t = icon_constants [of row_flag "''white-on-black''" "''flag''" isNaN "[row_flag]" init_page]
  from t a have b: "marker_icon (row_marker (row_flag(''Color'' \<mapsto> ''white-on-black'')))
     = Some \<lparr>icon = Str ''flag'', iconColor = ''white'', markerColor = Str ''white-on-black'',
             prefix = ''fa'', extraClasses = ''flip-horizontal''\<rparr>"
    by auto
  from t m have c: "\<exists>i. marker_icon (row_marker row_flag) = Some i
          \<and> iconColor i = ''white'' \<and> prefix i = ''fa'' \<and> extraClasses i = ''flip-horizontal''"
    by blast
  from a b g m c show ?thesis by blast
qed

section \<open>Hover styles\<close>

lemma hover_handler_Path:
  "hover_handler e (Path t) =
     Inr (Path (setStyle (case e of MouseOver \<Rightarrow> polygonHoverStyle | MouseOut \<Rightarrow> polygonStyle) t))"
  by (cases e) (simp_all add: mouseover_def mouseout_def)

lemma setStyle_overrides:
  "setStyle (case e of MouseOver \<Rightarrow> polygonHoverStyle | MouseOut \<Rightarrow> polygonStyle)
     (setStyle (case e' of MouseOver \<Rightarrow> polygonHoverStyle | MouseOut \<Rightarrow> polygonStyle) t)
   = setStyle (case e of MouseOver \<Rightarrow> polygonHoverStyle | MouseOut \<Rightarrow> polygonStyle) t"
  by (cases e; cases e')
     (auto simp: setStyle_def polygonStyle_def polygonHoverStyle_def map_add_def fun_eq_iff)

lemma hover_events_snoc:
  "hover_events (es @ [e]) tg = (case hover_handler e (hover_events es tg) of
      Inl err \<Rightarrow> hover_events es tg | Inr t' \<Rightarrow> t')"
  unfolding hover_events_def by simp

lemma hover_events_Path: "\<exists>t'. hover_events es (Path t) = Path t'"
proof (induction es rule: rev_induct)
  case Nil
  show ?case by (simp add: hover_events_def)
next
  case (snoc x xs)
  then obtain t' where "hover_events xs (Path t) = Path t'" ..
  then show ?case by (simp add: hover_events_snoc hover_handler_Path)
qed

lemma hover_handler_after_events:
  "hover_handler e (hover_events es (Path t)) = hover_handler e (Path t)"
proof (induction es rule: rev_induct)
  case Nil
  show ?case by (simp add: hover_events_def)
next
  case (snoc x xs)
  obtain t' where t': "hover_events xs (Path t) = Path t'"
    using hover_events_Path by blast
  have "hover_handler e (hover_events (xs @ [x]) (Path t))
          = hover_handler e (Path (setStyle (case x of MouseOver \<Rightarrow> polygonHoverStyle | MouseOut \<Rightarrow> polygonStyle) t'))"
    by (simp add: hover_events_snoc t' hover_handler_Path)
  also have "\<dots> = hover_handler e (Path t')"
    by (simp add: hover_handler_Path setStyle_overrides)
  also have "\<dots> = hover_handler e (Path t)"
    using snoc.IH by (simp add: t')
  finally show ?case .
qed

text \<open>
  Claim C7, as the source has it. On a polygon feature that is drawn as a path, which is
  what Leaflet makes of the geometry kinds \<^verbatim>\<open>LineString\<close>, \<^verbatim>\<open>MultiLineString\<close>,
  \<^verbatim>\<open>Polygon\<close> and \<^verbatim>\<open>MultiPolygon\<close>, the pointer-out handler sets the colour
  \<^verbatim>\<open>#2ca25f\<close>, the fill colour \<^verbatim>\<open>#99d8c9\<close> and the weight 2, and the pointer-over
  handler sets the colour \<^verbatim>\<open>green\<close>, the fill colour \<^verbatim>\<open>#2ca25f\<close> and the weight 4;
  neither touches another option of the path. A handler overrides whatever an earlier one
  set, so after any sequence of hover events the path is the one that the last event alone
  gives, and a handler that runs twice gives what it gives once.
\<close>

theorem hover_styles_exact:
  "mouseout (Path t) =
     Inr (Path (t(''color'' \<mapsto> SString ''#2ca25f'', ''fillColor'' \<mapsto> SString ''#99d8c9'',
                  ''weight'' \<mapsto> SNumber 2)))
   \<and> mouseover (Path t) =
     Inr (Path (t(''color'' \<mapsto> SString ''green'', ''fillColor'' \<mapsto> SString ''#2ca25f'',
                  ''weight'' \<mapsto> SNumber 4)))
   \<and> (\<exists>t'. hover_handler e (Path t) = Inr (Path t') \<and> hover_handler e (Path t') = Inr (Path t'))
   \<and> (es \<noteq> [] \<longrightarrow> hover_handler (last es) (Path t) = Inr (hover_events es (Path t)))
   \<and> (g_type (geometry f) \<in> {Str ''LineString'', Str ''MultiLineString'', Str ''Polygon'',
                               Str ''MultiPolygon''} \<longrightarrow>
        geometryToLayer polygonStyle f = Inr tg \<longrightarrow>
        (\<exists>opts. tg = Path opts))"
proof (intro conjI impI)
  show "mouseout (Path t) =
     Inr (Path (t(''color'' \<mapsto> SString ''#2ca25f'', ''fillColor'' \<mapsto> SString ''#99d8c9'',
                  ''weight'' \<mapsto> SNumber 2)))"
    by (auto simp: mouseout_def setStyle_def polygonStyle_def map_add_def fun_eq_iff)
  show "mouseover (Path t) =
     Inr (Path (t(''color'' \<mapsto> SString ''green'', ''fillColor'' \<mapsto> SString ''#2ca25f'',
                  ''weight'' \<mapsto> SNumber 4)))"
    by (auto simp: mouseover_def setStyle_def polygonHoverStyle_def map_add_def fun_eq_iff)
  show "\<exists>t'. hover_handler e (Path t) = Inr (Path t') \<and> hover_handler e (Path t') = Inr (Path t')"
    by (simp add: hover_handler_Path setStyle_overrides)
next
  assume "es \<noteq> []"
  then obtain xs x where es: "es = xs @ [x]" by (cases es rule: rev_cases) auto
  obtain t' where t': "hover_events xs (Path t) = Path t'"
    using hover_events_Path by blast
  have "hover_handler x (Path t) = hover_handler x (hover_events xs (Path t))"
    by (simp add: hover_handler_after_events)
  also have "\<dots> = Inr (hover_events (xs @ [x]) (Path t))"
    by (simp add: hover_events_snoc t' hover_handler_Path)
  finally show "hover_handler (last es) (Path t) = Inr (hover_events es (Path t))"
    by (simp add: es)
next
  assume "g_type (geometry f) \<in> {Str ''LineString'', Str ''MultiLineString'', Str ''Polygon'',
                               Str ''MultiPolygon''}"
    and "geometryToLayer polygonStyle f = Inr tg"
  then show "\<exists>opts. tg = Path opts"
    by (auto simp: geometryToLayer_def split: if_splits)
qed

theorem hover_styles_exact_witness:
  "[MouseOver, MouseOut, MouseOver, MouseOut] \<noteq> []
   \<and> hover_events [MouseOver, MouseOut, MouseOver, MouseOut]
        (Path [''opacity'' \<mapsto> SNumber 1, ''color'' \<mapsto> SString ''#3388ff''])
       = Path [''opacity'' \<mapsto> SNumber 1, ''color'' \<mapsto> SString ''#2ca25f'',
               ''fillColor'' \<mapsto> SString ''#99d8c9'', ''weight'' \<mapsto> SNumber 2]
   \<and> hover_events [MouseOut, MouseOver]
        (Path [''opacity'' \<mapsto> SNumber 1, ''color'' \<mapsto> SString ''#3388ff''])
       = Path [''opacity'' \<mapsto> SNumber 1, ''color'' \<mapsto> SString ''green'',
               ''fillColor'' \<mapsto> SString ''#2ca25f'', ''weight'' \<mapsto> SNumber 4]
   \<and> g_type (geometry feature_LineString) \<in> {Str ''LineString'', Str ''MultiLineString'',
         Str ''Polygon'', Str ''MultiPolygon''}
   \<and> geometryToLayer polygonStyle feature_LineString = Inr (Path (setStyle polygonStyle Map.empty))"
proof -
  let ?t = "[''opacity'' \<mapsto> SNumber 1, ''color'' \<mapsto> SString ''#3388ff'']"
  have a: "[MouseOver, MouseOut, MouseOver, MouseOut] \<noteq> []" and b: "[MouseOut, MouseOver] \<noteq> []"
    by simp_all
  have k: "g_type (geometry feature_LineString) \<in> {Str ''LineString'', Str ''MultiLineString'',
         Str ''Polygon'', Str ''MultiPolygon''}"
    by (simp add: feature_LineString_def)
  note g = geometryToLayer_example(1)
  note t1 = hover_styles_exact [of ?t MouseOut "[MouseOver, MouseOut, MouseOver, MouseOut]"
      feature_LineString "Path (setStyle polygonStyle Map.empty)"]
  note t2 = hover_styles_exact [of ?t MouseOver "[MouseOut, MouseOver]"
      feature_LineString "Path (setStyle polygonStyle Map.empty)"]
  from t1 a have "hover_handler (last [MouseOver, MouseOut, MouseOver, MouseOut]) (Path ?t)
      = Inr (hover_events [MouseOver, MouseOut, MouseOver, MouseOut] (Path ?t))"
    by blast
  then have c: "Inr (hover_events [MouseOver, MouseOut, MouseOver, MouseOut] (Path ?t)) = mouseout (Path ?t)"
    by simp
  from t2 b have "hover_handler (last [MouseOut, MouseOver]) (Path ?t)
      = Inr (hover_events [MouseOut, MouseOver] (Path ?t))"
    by blast
  then have d: "Inr (hover_events [MouseOut, MouseOver] (Path ?t)) = mouseover (Path ?t)"
    by simp
  from t1 have e: "mouseout (Path ?t) =
     Inr (Path (?t(''color'' \<mapsto> SString ''#2ca25f'', ''fillColor'' \<mapsto> SString ''#99d8c9'',
                  ''weight'' \<mapsto> SNumber 2)))"
    and f: "mouseover (Path ?t) =
     Inr (Path (?t(''color'' \<mapsto> SString ''green'', ''fillColor'' \<mapsto> SString ''#2ca25f'',
                  ''weight'' \<mapsto> SNumber 4)))"
    by blast+
  from trans [OF c e] have c': "hover_events [MouseOver, MouseOut, MouseOver, MouseOut] (Path ?t)
       = Path (?t(''color'' \<mapsto> SString ''#2ca25f'', ''fillColor'' \<mapsto> SString ''#99d8c9'',
                  ''weight'' \<mapsto> SNumber 2))"
    by (simp only: sum.inject)
  from trans [OF d f] have d': "hover_events [MouseOut, MouseOver] (Path ?t)
       = Path (?t(''color'' \<mapsto> SString ''green'', ''fillColor'' \<mapsto> SString ''#2ca25f'',
                  ''weight'' \<mapsto> SNumber 4))"
    by (simp only: sum.inject)
  from a c' d' k g show ?thesis by simp
qed

text \<open>
  Claim C7 as the specification words it, for every rendered feature of the polygon
  table, fails: the handlers are bound to the layer of every Feature, and a Feature of
  the kind \<^verbatim>\<open>Point\<close> is drawn as a marker, which has no \<^verbatim>\<open>setStyle\<close>. Both handlers
  throw on it and no style is set.
\<close>

theorem hover_on_marker_counterexample:
  "geometryToLayer polygonStyle feature_Point = Inr Marker
   \<and> mouseout Marker = Inl TypeError
   \<and> mouseover Marker = Inl TypeError
   \<and> hover_events [MouseOver, MouseOut] Marker = Marker"
  by (simp add: geometryToLayer_example mouseout_def mouseover_def hover_events_def)

section \<open>Clicks and the side panel\<close>

text \<open>
  Claim C3, as the source has it. A click on a polygon stops the event, so the map's own
  click handler does not run; for a feature with a category label and an info blob it sets
  the panel title to the label, \<^verbatim>\<open>properties.type\<close>, and the panel body to the blob,
  \<^verbatim>\<open>properties.myinfo\<close>, and opens the panel. A click on the map closes the panel and
  leaves the title and the body as they were: the two statements that would reset them
  are commented out.
\<close>

theorem clicks_and_panel:
  "stopped (fst (polygon_click \<lparr>target_feature = f, stopped = False\<rparr> ui))
   \<and> (p_type (properties f) = Str t \<longrightarrow> myinfo (properties f) = Str i \<longrightarrow>
        click_on_feature f ui = \<lparr>sidebar_title = t, sidebar_content = i, open_panel = Some panelID\<rparr>)
   \<and> click_on_map ui = ui\<lparr>open_panel := None\<rparr>
   \<and> sidebar_title (click_on_map ui) = sidebar_title ui
   \<and> sidebar_content (click_on_map ui) = sidebar_content ui"
proof -
  let ?e = "\<lparr>target_feature = f, stopped = False\<rparr>"
  have stop: "stopped (fst (polygon_click ?e ui))"
    by (simp add: polygon_click_def)
  have handler: "snd (polygon_click ?e ui) =
       ui\<lparr>sidebar_title := jq_text (p_type (properties f)) (sidebar_title ui),
          sidebar_content := jq_text (myinfo (properties f)) (sidebar_content ui),
          open_panel := Some panelID\<rparr>"
    by (simp add: polygon_click_def)
  have "click_on_feature f ui = snd (polygon_click ?e ui)"
    using stop by (cases "polygon_click ?e ui") (simp add: click_on_feature_def)
  with handler have feat: "click_on_feature f ui =
       ui\<lparr>sidebar_title := jq_text (p_type (properties f)) (sidebar_title ui),
          sidebar_content := jq_text (myinfo (properties f)) (sidebar_content ui),
          open_panel := Some panelID\<rparr>"
    by simp
  have strings: "p_type (properties f) = Str t \<longrightarrow> myinfo (properties f) = Str i \<longrightarrow>
        click_on_feature f ui = \<lparr>sidebar_title = t, sidebar_content = i, open_panel = Some panelID\<rparr>"
    by (simp add: feat)
  have close: "click_on_map ui = ui\<lparr>open_panel := None\<rparr>"
    by (simp add: click_on_map_def map_click_def)
  from stop strings close show ?thesis by simp
qed

theorem clicks_and_panel_witness:
  "p_type (properties feature_LineString) = Str ''Road widening''
   \<and> myinfo (properties feature_LineString) = Str ''Phase 1''
   \<and> click_on_feature feature_LineString init_sidebar
       = \<lparr>sidebar_title = ''Road widening'', sidebar_content = ''Phase 1'',
          open_panel = Some ''my-info-panel''\<rparr>
   \<and> click_on_map (click_on_feature feature_LineString init_sidebar)
       = \<lparr>sidebar_title = ''Road widening'', sidebar_content = ''Phase 1'', open_panel = None\<rparr>"
proof -
  have a: "p_type (properties feature_LineString) = Str ''Road widening''"
    and b: "myinfo (properties feature_LineString) = Str ''Phase 1''"
    by (simp_all add: feature_LineString_def)
  from clicks_and_panel [of feature_LineString init_sidebar "''Road widening''" "''Phase 1''"] a b
  have c: "click_on_feature feature_LineString init_sidebar
       = \<lparr>sidebar_title = ''Road widening'', sidebar_content = ''Phase 1'',
          open_panel = Some ''my-info-panel''\<rparr>"
    by (simp add: panelID_def)
  from clicks_and_panel [of feature_LineString "click_on_feature feature_LineString init_sidebar"]
  have d: "click_on_map (click_on_feature feature_LineString init_sidebar)
       = (click_on_feature feature_LineString init_sidebar)\<lparr>open_panel := None\<rparr>"
    by blast
  from a b c d show ?thesis by simp
qed

text \<open>
  Claim C3 as the specification words it, with a map click that clears the title and the
  body, fails: after a click on a polygon and then a click on the map, the panel is closed
  and both fields still show the polygon's texts.
\<close>

theorem map_click_clears_counterexample:
  "sidebar_title (click_on_map (click_on_feature feature_LineString init_sidebar)) = ''Road widening''
   \<and> sidebar_content (click_on_map (click_on_feature feature_LineString init_sidebar)) = ''Phase 1''
   \<and> sidebar_title (click_on_map (click_on_feature feature_LineString init_sidebar)) \<noteq> sidebar_title init_sidebar
   \<and> sidebar_content (click_on_map (click_on_feature feature_LineString init_sidebar)) \<noteq> []"
  by (simp add: polygon_click_def click_on_feature_def click_on_map_def map_click_def
      feature_LineString_def init_sidebar_def)

end
